theory Spec2Isabelle
  imports Complex_Main "HOL-Library.Word"
begin

section \<open>Values exchanged with the services\<close>

text \<open>
  The component of \<^verbatim>\<open>src/components/Map/Map.tsx\<close> keeps its data as \<^verbatim>\<open>any\<close>: whatever
  the parsed response body holds. A body is a JSON value. The own properties of an object
  are an association list with distinct keys.

  Numbers are IEEE doubles. The model never calculates with them: \<open>JNum x\<close> and \<open>Num x\<close>
  stand for the double nearest to \<open>x\<close>, as a decimal literal does in the source, and the
  operations on doubles that the code uses (\<^verbatim>\<open>parseFloat\<close>, subtraction, addition) are
  parameters of the model.
\<close>

datatype json =
    JNull
  | JBool bool
  | JNum real
  | JStr string
  | JArr "json list"
  | JObj "(string \<times> json) list"

text \<open>JavaScript truthiness of a value, as \<^verbatim>\<open>x && ...\<close> and \<^verbatim>\<open>x || ...\<close> test it.\<close>

fun truthy :: "json \<Rightarrow> bool" where
  "truthy JNull = False"
| "truthy (JBool b) = b"
| "truthy (JNum x) = (x \<noteq> 0)"
| "truthy (JStr s) = (s \<noteq> [])"
| "truthy (JArr xs) = True"
| "truthy (JObj kvs) = True"

text \<open>
  Reading a property: \<open>None\<close> is \<^verbatim>\<open>undefined\<close>. The code reads the properties
  \<^verbatim>\<open>data\<close>, \<^verbatim>\<open>lat\<close>, \<^verbatim>\<open>lon\<close>, \<^verbatim>\<open>aqi\<close>, \<^verbatim>\<open>station\<close> and \<^verbatim>\<open>name\<close> only, which no
  primitive value and no array has. Every read in the code is guarded against
  \<^verbatim>\<open>null\<close> (by \<^verbatim>\<open>&&\<close> or \<^verbatim>\<open>?.\<close>), so the value given for \<open>JNull\<close> is never used.
\<close>

fun getprop :: "json \<Rightarrow> string \<Rightarrow> json option" where
  "getprop (JObj kvs) k = map_of kvs k"
| "getprop v k = None"

text \<open>\<^verbatim>\<open>typeof v === 'number'\<close>\<close>

fun is_number :: "json option \<Rightarrow> bool" where
  "is_number (Some (JNum x)) = True"
| "is_number v = False"

text \<open>
  A value of type \<^verbatim>\<open>number\<close>: a finite double, an infinity or \<^verbatim>\<open>NaN\<close>.
\<close>

datatype jsnum = Num real | PosInf | NegInf | NaN

text \<open>
  The operations on numbers that the code uses: \<^verbatim>\<open>parseFloat(t)\<close>, \<^verbatim>\<open>a - b\<close> and
  \<^verbatim>\<open>a + b\<close>. Nothing is assumed about them.
\<close>

record number_ops =
  parseFloat :: "string \<Rightarrow> jsnum"
  fsub :: "jsnum \<Rightarrow> jsnum \<Rightarrow> jsnum"
  fadd :: "jsnum \<Rightarrow> jsnum \<Rightarrow> jsnum"

text \<open>
  A string that the code passes to \<^verbatim>\<open>encodeURIComponent\<close> is kept as its UTF-16 code
  units. \<^verbatim>\<open>encodeURIComponent\<close> throws a \<^verbatim>\<open>URIError\<close> when the string has a lone
  surrogate: a leading surrogate that no trailing surrogate follows, or a trailing
  surrogate that follows no leading one.
\<close>

type_synonym code_unit = "16 word"

definition is_lead :: "code_unit \<Rightarrow> bool" where
  "is_lead c = (0xD800 \<le> c \<and> c \<le> 0xDBFF)"

definition is_trail :: "code_unit \<Rightarrow> bool" where
  "is_trail c = (0xDC00 \<le> c \<and> c \<le> 0xDFFF)"

fun uri_encodable :: "code_unit list \<Rightarrow> bool" where
  "uri_encodable [] = True"
| "uri_encodable [c] = (if is_lead c then False else if is_trail c then False else True)"
| "uri_encodable (c # d # cs) =
     (if is_lead c then (if is_trail d then uri_encodable cs else False)
      else if is_trail c then False
      else uri_encodable (d # cs))"

datatype 'a outcome = Rejected | Resolved 'a

section \<open>The Leaflet map\<close>

text \<open>
  What the component can observe of a map object: its view, the layers attached to it,
  whether the zoom control was added and whether \<^verbatim>\<open>remove()\<close> was called on it.
  \<^verbatim>\<open>L.CircleMarker\<close> and \<^verbatim>\<open>L.Marker\<close> are unrelated classes (a circle marker is a path),
  so each \<^verbatim>\<open>instanceof\<close> test of the code selects one constructor. A marker carries the
  contents of the popup bound to it: for a circle marker the index value and the station
  name interpolated into it, for a pin marker the display name. A circle marker is made
  from numbers of a response body, which are finite; a pin marker and the view are made
  from results of \<^verbatim>\<open>parseFloat\<close>.
\<close>

type_synonym color = string

datatype layer =
    TileLayer
  | is_CircleMarker: CircleMarker real real color real json
  | is_Marker: Marker jsnum jsnum string

record lmap =
  center :: "jsnum \<times> jsnum"
  zoom :: nat
  layers :: "layer list"
  zoomControl :: bool
  removed :: bool

datatype toast = ToastError string | ToastWarning string

text \<open>
  The network calls: a geocoding call with its query; a call for the readings within
  bounds that were calculated, with the four bounds and the token that are interpolated
  into its URL; the call of the initial load, whose URL has the bounds as fixed text.
\<close>

datatype request =
    GeocodeReq "code_unit list"
  | BoundsReq jsnum jsnum jsnum jsnum string
  | DefaultBoundsReq string string

section \<open>The component's state\<close>

text \<open>
  Map objects live in a store (\<open>maps\<close>); the ref \<^verbatim>\<open>map.current\<close> is an index into it or
  \<^verbatim>\<open>null\<close>. \<open>toasts\<close> and \<open>requests\<close> log the notifications shown and the network calls
  issued. \<open>renderedToken\<close> is the value of \<^verbatim>\<open>iqairToken\<close> in the last render, which is
  the one the event handlers of that render have closed over. The last four fields are
  React's bookkeeping: whether the component is mounted, the dependencies
  \<^verbatim>\<open>[showMap, iqairToken, mapInitialized]\<close> of the last commit, whether the last run of the
  first effect returned its cleanup function, and whether \<^verbatim>\<open>aqiData\<close> was set since the
  last commit (every \<^verbatim>\<open>setAqiData\<close> of the code passes a fresh value, so the second effect
  runs after each).
\<close>

record state =
  mapContainer :: bool
  maps :: "lmap list"
  map_current :: "nat option"
  aqiData :: json
  iqairToken :: string
  showMap :: bool
  searchResults :: json
  selectedLocation :: "(jsnum \<times> jsnum) option"
  mapInitialized :: bool
  toasts :: "toast list"
  requests :: "request list"
  localStorage :: "string option"
  renderedToken :: string
  mounted :: bool
  initDeps :: "(bool \<times> string \<times> bool) option"
  initCleanup :: bool
  aqiChanged :: bool

definition setAqiData :: "json \<Rightarrow> state \<Rightarrow> state" where
  "setAqiData v s = s\<lparr>aqiData := v, aqiChanged := True\<rparr>"

definition toast_add :: "toast \<Rightarrow> state \<Rightarrow> state" where
  "toast_add t s = s\<lparr>toasts := toasts s @ [t]\<rparr>"

section \<open>Overlay reconciliation (the effect on \<^verbatim>\<open>aqiData\<close>)\<close>

text \<open>\<^verbatim>\<open>point.station?.name || 'Unknown Station'\<close>\<close>

definition station_name :: "json \<Rightarrow> json" where
  "station_name point =
     (case getprop point ''station'' of
        None \<Rightarrow> JStr ''Unknown Station''
      | Some JNull \<Rightarrow> JStr ''Unknown Station''
      | Some st \<Rightarrow>
          (case getprop st ''name'' of
             None \<Rightarrow> JStr ''Unknown Station''
           | Some n \<Rightarrow> if truthy n then n else JStr ''Unknown Station''))"

text \<open>
  The body of the \<^verbatim>\<open>forEach\<close> callback: the marker a point gets, or \<open>None\<close> when the
  validation \<^verbatim>\<open>point && typeof point.lat === 'number' && ...\<close> fails.
\<close>

definition point_marker :: "(real \<Rightarrow> color) \<Rightarrow> json \<Rightarrow> layer option" where
  "point_marker getAQIColor point =
     (if truthy point then
        (case (getprop point ''lat'', getprop point ''lon'', getprop point ''aqi'') of
           (Some (JNum la), Some (JNum lo), Some (JNum a)) \<Rightarrow>
              Some (CircleMarker la lo (getAQIColor a) a (station_name point))
         | _ \<Rightarrow> None)
      else None)"

fun add_points :: "(real \<Rightarrow> color) \<Rightarrow> json list \<Rightarrow> layer list \<Rightarrow> layer list" where
  "add_points getAQIColor [] ls = ls"
| "add_points getAQIColor (point # points) ls =
     add_points getAQIColor points
       (case point_marker getAQIColor point of None \<Rightarrow> ls | Some m \<Rightarrow> ls @ [m])"

definition clear_circles :: "layer list \<Rightarrow> layer list" where
  "clear_circles ls = filter (\<lambda>l. \<not> is_CircleMarker l) ls"

definition aqi_effect :: "(real \<Rightarrow> color) \<Rightarrow> state \<Rightarrow> state" where
  "aqi_effect getAQIColor s =
     (case map_current s of
        None \<Rightarrow> s
      | Some i \<Rightarrow>
          (case aqiData s of
             JArr points \<Rightarrow>
               (if points = [] then s
                else s\<lparr>maps := (maps s)
                       [i := (maps s ! i)\<lparr>layers :=
                          add_points getAQIColor points (clear_circles (layers (maps s ! i)))\<rparr>]\<rparr>)
           | _ \<Rightarrow> s))"

section \<open>Fetching readings\<close>

text \<open>
  An \<^verbatim>\<open>async\<close> function is split at its \<^verbatim>\<open>await\<close>: the part that issues the request,
  and the part that runs when the call settles (\<open>Rejected\<close>: \<^verbatim>\<open>axios.get\<close> threw;
  \<open>Resolved d\<close>: \<^verbatim>\<open>response.data\<close> is \<open>d\<close>). A handler uses the token of the render that
  created it.
\<close>

definition offset :: jsnum where
  "offset = Num 0.18"

definition fetchAQIDataForLocation :: "number_ops \<Rightarrow> jsnum \<Rightarrow> jsnum \<Rightarrow> state \<Rightarrow> state" where
  "fetchAQIDataForLocation js lat' lon' s =
     s\<lparr>requests := requests s @
        [BoundsReq (fsub js lat' offset) (fsub js lon' offset)
           (fadd js lat' offset) (fadd js lon' offset) (renderedToken s)]\<rparr>"

text \<open>
  The test \<^verbatim>\<open>response.data && response.data.data\<close>: the payload when it holds. In that
  branch \<^verbatim>\<open>response.data.data || []\<close> is the payload itself.
\<close>

definition payload :: "json \<Rightarrow> json option" where
  "payload d =
     (if truthy d then
        (case getprop d ''data'' of
           None \<Rightarrow> None
         | Some v \<Rightarrow> if truthy v then Some v else None)
      else None)"

definition fetchAQIDataForLocation_resume :: "json outcome \<Rightarrow> state \<Rightarrow> state" where
  "fetchAQIDataForLocation_resume r s =
     (case r of
        Rejected \<Rightarrow>
          setAqiData (JArr []) (toast_add (ToastError ''Failed to load air quality data'') s)
      | Resolved d \<Rightarrow>
          (case payload d of
             Some v \<Rightarrow> setAqiData v s
           | None \<Rightarrow>
               toast_add (ToastWarning ''No air quality data available for this location'')
                 (setAqiData (JArr []) s)))"

text \<open>
  The request of the initial load: the bounds of the default region are part of the text
  of the URL.
\<close>

definition fetchAQIData :: "string \<Rightarrow> state \<Rightarrow> state" where
  "fetchAQIData token s =
     s\<lparr>requests := requests s @
        [DefaultBoundsReq ''24.396308,-125.000000,49.384358,-66.934570'' token]\<rparr>"

definition fetchAQIData_resume :: "json outcome \<Rightarrow> state \<Rightarrow> state" where
  "fetchAQIData_resume r s =
     (case r of
        Rejected \<Rightarrow>
          setAqiData (JArr [])
            (toast_add
               (ToastError ''Failed to load air quality data. Please check your API key.'') s)
      | Resolved d \<Rightarrow>
          (case payload d of
             Some v \<Rightarrow> setAqiData v s
           | None \<Rightarrow>
               toast_add
                 (ToastWarning ''No air quality data available. Please check your API key.'')
                 (setAqiData (JArr []) s)))"

section \<open>Search and selection\<close>

text \<open>
  \<^verbatim>\<open>handleSearch\<close> up to its \<^verbatim>\<open>await\<close>, and its continuation. The URL is built inside
  the \<^verbatim>\<open>try\<close>: when \<^verbatim>\<open>encodeURIComponent(query)\<close> throws, no call is made and the
  \<^verbatim>\<open>catch\<close> reports the error. \<^verbatim>\<open>response.data.slice(0, 5)\<close> exists on arrays and
  strings; on any other body the call throws a \<^verbatim>\<open>TypeError\<close> inside the \<^verbatim>\<open>try\<close>, which
  the \<^verbatim>\<open>catch\<close> reports in the same way.
\<close>

definition handleSearch :: "code_unit list \<Rightarrow> state \<Rightarrow> state" where
  "handleSearch query s =
     (if query = [] then s\<lparr>searchResults := JArr []\<rparr>
      else if uri_encodable query then s\<lparr>requests := requests s @ [GeocodeReq query]\<rparr>
      else toast_add (ToastError ''Error searching for locations'') s)"

definition handleSearch_resume :: "json outcome \<Rightarrow> state \<Rightarrow> state" where
  "handleSearch_resume r s =
     (case r of
        Rejected \<Rightarrow> toast_add (ToastError ''Error searching for locations'') s
      | Resolved d \<Rightarrow>
          (case d of
             JArr xs \<Rightarrow> s\<lparr>searchResults := JArr (take 5 xs)\<rparr>
           | JStr t \<Rightarrow> s\<lparr>searchResults := JStr (take 5 t)\<rparr>
           | _ \<Rightarrow> toast_add (ToastError ''Error searching for locations'') s))"

text \<open>
  A candidate of the geocoding service: a display name and string-encoded coordinates.
\<close>

record location =
  display_name :: string
  lat :: string
  lon :: string

text \<open>The zoom levels of the source: the map is created at 4, a selection zooms to 12.\<close>

definition default_zoom :: nat where
  "default_zoom = 4"

definition selection_zoom :: nat where
  "selection_zoom = 12"

text \<open>
  \<^verbatim>\<open>handleSelectLocation\<close>. Leaflet builds a \<^verbatim>\<open>LatLng\<close> from the pair given to
  \<^verbatim>\<open>setView\<close>, and its constructor throws when \<^verbatim>\<open>isNaN\<close> holds of a coordinate: with a
  live map and a coordinate that does not parse, the handler ends there, after
  \<^verbatim>\<open>setSelectedLocation\<close>.
\<close>

definition handleSelectLocation :: "number_ops \<Rightarrow> location \<Rightarrow> state \<Rightarrow> state" where
  "handleSelectLocation js loc s =
     (let lat' = parseFloat js (lat loc);
          lon' = parseFloat js (lon loc);
          s1 = s\<lparr>selectedLocation := Some (lat', lon')\<rparr>
      in case map_current s1 of
           None \<Rightarrow> fetchAQIDataForLocation js lat' lon' (s1\<lparr>searchResults := JArr []\<rparr>)
         | Some i \<Rightarrow>
             (if lat' = NaN then s1
              else if lon' = NaN then s1
              else
                fetchAQIDataForLocation js lat' lon'
                  (s1\<lparr>maps := (maps s1)
                        [i := (maps s1 ! i)
                           \<lparr>center := (lat', lon'), zoom := selection_zoom,
                            layers := filter (\<lambda>l. \<not> is_Marker l) (layers (maps s1 ! i))
                                      @ [Marker lat' lon' (display_name loc)]\<rparr>],
                      searchResults := JArr []\<rparr>)))"

section \<open>The session gate\<close>

text \<open>\<^verbatim>\<open>String.prototype.trim\<close>, on the white space of Latin-1.\<close>

definition is_space :: "char \<Rightarrow> bool" where
  "is_space c = (c \<in> set [CHR 0x09, CHR 0x0A, CHR 0x0B, CHR 0x0C, CHR 0x0D, CHR 0x20, CHR 0xA0])"

definition trim :: "string \<Rightarrow> string" where
  "trim t = rev (dropWhile is_space (rev (dropWhile is_space t)))"

definition handleSaveToken :: "state \<Rightarrow> state" where
  "handleSaveToken s =
     (if trim (renderedToken s) = []
      then toast_add (ToastError ''Please enter a valid IQAir API token'') s
      else s\<lparr>localStorage := Some (renderedToken s), showMap := True\<rparr>)"

definition setIqairToken :: "string \<Rightarrow> state \<Rightarrow> state" where
  "setIqairToken v s = s\<lparr>iqairToken := v\<rparr>"

section \<open>Map lifecycle (the effect on \<^verbatim>\<open>showMap\<close>, \<^verbatim>\<open>iqairToken\<close>, \<^verbatim>\<open>mapInitialized\<close>)\<close>

text \<open>
  The map as \<^verbatim>\<open>L.map\<close> returns it, and the three ways the \<^verbatim>\<open>try\<close> block can go: both
  Leaflet calls succeed, \<^verbatim>\<open>L.map\<close> throws, or adding the zoom control throws.
\<close>

definition new_map :: lmap where
  "new_map = \<lparr>center = (Num 39.8283, Num (- 98.5795)), zoom = default_zoom,
              layers = [TileLayer],
              zoomControl = False, removed = False\<rparr>"

datatype ctor_outcome = CtorOk | MapThrows | ZoomControlThrows

text \<open>
  The effect's body, on the values \<^verbatim>\<open>showMap\<close>, \<^verbatim>\<open>iqairToken\<close>, \<^verbatim>\<open>mapInitialized\<close> of the
  render it belongs to. The second component tells whether the cleanup function was
  returned, which is the case unless the guard returned early. The layout refresh of the
  \<^verbatim>\<open>setTimeout\<close> changes nothing that the state records.
\<close>

definition init_effect ::
  "ctor_outcome \<Rightarrow> bool \<Rightarrow> string \<Rightarrow> bool \<Rightarrow> state \<Rightarrow> state \<times> bool" where
  "init_effect oc showMap' iqairToken' mapInitialized' s =
     (if \<not> mapContainer s then (s, False)
      else if \<not> showMap' then (s, False)
      else if mapInitialized' then (s, False)
      else
        (case oc of
           MapThrows \<Rightarrow> (toast_add (ToastError ''Failed to initialize map'') s, True)
         | ZoomControlThrows \<Rightarrow>
             (toast_add (ToastError ''Failed to initialize map'')
                (s\<lparr>maps := maps s @ [new_map], map_current := Some (length (maps s))\<rparr>),
              True)
         | CtorOk \<Rightarrow>
             (fetchAQIData iqairToken'
                (s\<lparr>maps := maps s @ [new_map\<lparr>zoomControl := True\<rparr>],
                   map_current := Some (length (maps s)),
                   mapInitialized := True\<rparr>),
              True)))"

text \<open>
  The cleanup function. \<^verbatim>\<open>remove()\<close> detaches every layer of the map and destroys it.
\<close>

definition init_cleanup :: "state \<Rightarrow> state" where
  "init_cleanup s =
     (case map_current s of
        None \<Rightarrow> s
      | Some i \<Rightarrow>
          s\<lparr>maps := (maps s)[i := (maps s ! i)\<lparr>layers := [], removed := True\<rparr>],
            map_current := None,
            mapInitialized := False\<rparr>)"

text \<open>
  What React does with the two effects when it commits a render. The render reads the
  state as it is at that time, and its handlers replace those of the previous render; the
  container ref is attached iff the map view is rendered. An effect whose dependencies differ from those of the previous commit is run
  again: first the cleanup function its previous run returned, if any, then its body,
  which sees the values of this render. State set by the cleanup or the body shows in the
  next render only.
\<close>

definition run_init :: "ctor_outcome \<Rightarrow> state \<Rightarrow> state" where
  "run_init oc s =
     (let deps = (showMap s, iqairToken s, mapInitialized s) in
      if initDeps s = Some deps then s
      else
        (let s1 = (if initCleanup s then init_cleanup s else s);
             r = init_effect oc (showMap s) (iqairToken s) (mapInitialized s) s1
         in (fst r)\<lparr>initDeps := Some deps, initCleanup := snd r\<rparr>))"

definition run_aqi :: "(real \<Rightarrow> color) \<Rightarrow> state \<Rightarrow> state" where
  "run_aqi getAQIColor s =
     (if aqiChanged s then (aqi_effect getAQIColor s)\<lparr>aqiChanged := False\<rparr> else s)"

definition commit :: "(real \<Rightarrow> color) \<Rightarrow> ctor_outcome \<Rightarrow> state \<Rightarrow> state" where
  "commit getAQIColor oc s =
     (if mounted s
      then run_aqi getAQIColor
             (run_init oc (s\<lparr>mapContainer := showMap s, renderedToken := iqairToken s\<rparr>))
      else s)"

text \<open>Unmounting runs the cleanup of the last run, and nothing is rendered afterwards.\<close>

definition unmount :: "state \<Rightarrow> state" where
  "unmount s =
     (if mounted s
      then (if initCleanup s then init_cleanup s else s)
             \<lparr>mounted := False, mapContainer := False, initCleanup := False\<rparr>
      else s)"

text \<open>The state of a freshly mounted component, given the stored token if there is one.\<close>

definition init_state :: "string option \<Rightarrow> state" where
  "init_state stored =
     \<lparr>mapContainer = False, maps = [], map_current = None, aqiData = JArr [],
      iqairToken = (case stored of None \<Rightarrow> [] | Some t \<Rightarrow> t),
      showMap = False, searchResults = JArr [], selectedLocation = None,
      mapInitialized = False, toasts = [], requests = [], localStorage = stored,
      renderedToken = (case stored of None \<Rightarrow> [] | Some t \<Rightarrow> t),
      mounted = True, initDeps = None, initCleanup = False, aqiChanged = True\<rparr>"

text \<open>
  Everything that can happen to the component, in any order: user input, a commit, the
  settling of a network call, unmounting.
\<close>

datatype event =
    SetToken string
  | SaveToken
  | Commit ctor_outcome
  | Unmount
  | Search "code_unit list"
  | SearchDone "json outcome"
  | Select location
  | LocationFetchDone "json outcome"
  | InitialFetchDone "json outcome"

fun step :: "(real \<Rightarrow> color) \<Rightarrow> number_ops \<Rightarrow> event \<Rightarrow> state \<Rightarrow> state" where
  "step col js (SetToken v) s = setIqairToken v s"
| "step col js SaveToken s = handleSaveToken s"
| "step col js (Commit oc) s = commit col oc s"
| "step col js Unmount s = unmount s"
| "step col js (Search q) s = handleSearch q s"
| "step col js (SearchDone r) s = handleSearch_resume r s"
| "step col js (Select loc) s = handleSelectLocation js loc s"
| "step col js (LocationFetchDone r) s = fetchAQIDataForLocation_resume r s"
| "step col js (InitialFetchDone r) s = fetchAQIData_resume r s"

fun run :: "(real \<Rightarrow> color) \<Rightarrow> number_ops \<Rightarrow> event list \<Rightarrow> state \<Rightarrow> state" where
  "run col js [] s = s"
| "run col js (e # es) s = run col js es (step col js e s)"

section \<open>What the specification asks, the lifecycle invariants and examples\<close>

text \<open>
  The reading-markers on the live map (none when there is no live map).
\<close>

definition reading_markers :: "state \<Rightarrow> layer list" where
  "reading_markers s =
     (case map_current s of None \<Rightarrow> [] | Some i \<Rightarrow> filter is_CircleMarker (layers (maps s ! i)))"

text \<open>
  The reconciliation in the words of the specification. A Reading is valid when its
  coordinate and index fields are numeric. A valid Reading gets one marker, positioned at
  its coordinates, coloured by the colour function applied to its index, and labelled with
  the index and the station name, or with a placeholder when the station or its name is
  absent (a name that is null, empty or otherwise falsy counts as absent). The markers of
  a Dataset are those of its valid Readings, in order.
\<close>

definition valid_reading :: "json \<Rightarrow> bool" where
  "valid_reading p =
     (is_number (getprop p ''lat'') \<and> is_number (getprop p ''lon'') \<and>
      is_number (getprop p ''aqi''))"

fun number_of :: "json option \<Rightarrow> real" where
  "number_of (Some (JNum x)) = x"
| "number_of v = 0"

definition spec_label :: "json \<Rightarrow> json" where
  "spec_label p =
     (case getprop p ''station'' of
        Some (JObj kvs) \<Rightarrow>
          (case map_of kvs ''name'' of
             Some n \<Rightarrow> if truthy n then n else JStr ''Unknown Station''
           | None \<Rightarrow> JStr ''Unknown Station'')
      | _ \<Rightarrow> JStr ''Unknown Station'')"

definition spec_marker :: "(real \<Rightarrow> color) \<Rightarrow> json \<Rightarrow> layer" where
  "spec_marker getAQIColor p =
     CircleMarker (number_of (getprop p ''lat'')) (number_of (getprop p ''lon''))
       (getAQIColor (number_of (getprop p ''aqi''))) (number_of (getprop p ''aqi''))
       (spec_label p)"

definition spec_markers :: "(real \<Rightarrow> color) \<Rightarrow> json list \<Rightarrow> layer list" where
  "spec_markers getAQIColor points = map (spec_marker getAQIColor) (filter valid_reading points)"

text \<open>
  A response body without a payload: the body is absent or falsy, or it has no
  \<open>data\<close> property, or that property is falsy (null, false, zero, the empty string).
\<close>

definition no_payload :: "json \<Rightarrow> bool" where
  "no_payload d =
     (if truthy d then
        (case getprop d ''data'' of None \<Rightarrow> True | Some v \<Rightarrow> if truthy v then False else True)
      else True)"

text \<open>
  A blank query: not empty, and made of white space and line terminators of ECMAScript
  only.
\<close>

definition js_space :: "code_unit \<Rightarrow> bool" where
  "js_space c =
     (c \<in> set [0x09, 0x0A, 0x0B, 0x0C, 0x0D, 0x20, 0xA0, 0x1680, 0x2028, 0x2029, 0x202F,
                0x205F, 0x3000, 0xFEFF]
      \<or> (0x2000 \<le> c \<and> c \<le> 0x200A))"

definition is_blank :: "code_unit list \<Rightarrow> bool" where
  "is_blank query = (query \<noteq> [] \<and> list_all js_space query)"

text \<open>
  The invariant of the map lifecycle: the ref points to a map object that is not removed,
  for which a cleanup function is registered, and every other map object of the store has
  been removed; when the ref is null, every map object has been removed.
\<close>

definition lifecycle_ok :: "state \<Rightarrow> bool" where
  "lifecycle_ok s =
     (case map_current s of
        None \<Rightarrow> (\<forall>j < length (maps s). removed (maps s ! j))
      | Some i \<Rightarrow>
          i < length (maps s) \<and> \<not> removed (maps s ! i) \<and> initCleanup s \<and>
          (\<forall>j < length (maps s). j \<noteq> i \<longrightarrow> removed (maps s ! j)))"

text \<open>
  Events other than a commit in which adding the zoom control throws, and what holds of a
  live map when only such events happen: the flag \<^verbatim>\<open>mapInitialized\<close> is set while the
  dependencies of the last commit have it unset, so the next commit runs the effect again.
\<close>

fun fault_free :: "event \<Rightarrow> bool" where
  "fault_free (Commit ZoomControlThrows) = False"
| "fault_free e = True"

definition self_triggering :: "state \<Rightarrow> bool" where
  "self_triggering s =
     (case map_current s of
        None \<Rightarrow> True
      | Some i \<Rightarrow>
          mounted s \<and> mapInitialized s \<and> initCleanup s \<and>
          (\<exists>a b. initDeps s = Some (a, b, False)))"

text \<open>
  The colour function of \<^verbatim>\<open>lib/utils\<close> is a parameter of the model. The examples use
  this instance of it.
\<close>

definition sample_getAQIColor :: "real \<Rightarrow> color" where
  "sample_getAQIColor a = (if a \<le> 50 then ''green'' else ''red'')"

text \<open>
  An instance of the operations on numbers for the examples. It agrees with double
  arithmetic on the values of the example of Paris: \<^verbatim>\<open>2.3522 - 0.18\<close> is
  \<^verbatim>\<open>2.1721999999999997\<close>. Everything else is \<^verbatim>\<open>NaN\<close> in it.
\<close>

definition sample_js :: number_ops where
  "sample_js =
     \<lparr>parseFloat = (\<lambda>t. if t = ''48.8566'' then Num 48.8566
                       else if t = ''2.3522'' then Num 2.3522 else NaN),
      fsub = (\<lambda>a b. if a = Num 48.8566 \<and> b = Num 0.18 then Num 48.6766
                    else if a = Num 2.3522 \<and> b = Num 0.18 then Num 2.1721999999999997
                    else NaN),
      fadd = (\<lambda>a b. if a = Num 48.8566 \<and> b = Num 0.18 then Num 49.0366
                    else if a = Num 2.3522 \<and> b = Num 0.18 then Num 2.5322
                    else NaN)\<rparr>"

text \<open>
  The code units of a string of Latin-1 characters.
\<close>

definition code_units :: "string \<Rightarrow> code_unit list" where
  "code_units t = map (\<lambda>c. word_of_nat (of_char c)) t"

text \<open>
  Well-formed readings, without and with a station.
\<close>

definition reading :: "real \<Rightarrow> real \<Rightarrow> real \<Rightarrow> json" where
  "reading la lo a = JObj [(''lat'', JNum la), (''lon'', JNum lo), (''aqi'', JNum a)]"

definition louvre :: json where
  "louvre =
     JObj [(''lat'', JNum 48.86), (''lon'', JNum 2.34), (''aqi'', JNum 42),
           (''station'', JObj [(''name'', JStr ''Louvre'')])]"

text \<open>
  Two response bodies: the error envelope of the service, and an empty list of stations.
\<close>

definition error_envelope :: json where
  "error_envelope = JObj [(''status'', JStr ''error''), (''data'', JStr ''Invalid key'')]"

definition empty_envelope :: json where
  "empty_envelope = JObj [(''status'', JStr ''ok''), (''data'', JArr [])]"

text \<open>
  The candidate of the example of the specification, and one whose latitude does not
  parse, with the object the geocoding service sends for it.
\<close>

definition paris :: location where
  "paris = \<lparr>display_name = ''Paris'', lat = ''48.8566'', lon = ''2.3522''\<rparr>"

definition nowhere :: location where
  "nowhere = \<lparr>display_name = ''Nowhere'', lat = ''north'', lon = ''2.3522''\<rparr>"

definition nowhere_json :: json where
  "nowhere_json =
     JObj [(''display_name'', JStr ''Nowhere''), (''lat'', JStr ''north''),
           (''lon'', JStr ''2.3522'')]"

text \<open>
  A state with a live map that shows a pin marker of an earlier selection and a
  reading-marker of an earlier Dataset.
\<close>

definition sample_state :: state where
  "sample_state =
     (init_state (Some ''key''))
       \<lparr>mapContainer := True,
        maps := [new_map\<lparr>zoomControl := True,
                   layers := [TileLayer, Marker (Num 1) (Num 2) ''Home'',
                              CircleMarker 10 20 ''red'' 80 (JStr ''Old'')]\<rparr>],
        map_current := Some 0, showMap := True, mapInitialized := True,
        initDeps := Some (True, ''key'', False), initCleanup := True, aqiChanged := False\<rparr>"

text \<open>
  Executions from the mount on, with a stored token. \<open>initialized\<close>: the gate is
  opened and the first commit creates the map and issues the initial fetch.
  \<open>map_gone\<close>: React commits once more. \<open>candidates_shown\<close>: a search is made and
  answered, with a commit after each step, so that the candidate is on display over a
  live map. \<open>torn_down\<close>: a place is selected, which issues a fetch, and the next commit
  runs before the fetch settles. \<open>data_arrived\<close>: the initial fetch brings one valid
  reading while the first map is live, and React commits. \<open>data_arrived_late\<close>: the same
  response arrives one commit later, when the first map has been removed.
\<close>

definition initialized :: state where
  "initialized =
     run sample_getAQIColor sample_js [SaveToken, Commit CtorOk] (init_state (Some ''key''))"

definition map_gone :: state where
  "map_gone =
     run sample_getAQIColor sample_js [SaveToken, Commit CtorOk, Commit CtorOk]
       (init_state (Some ''key''))"

definition candidates_shown :: state where
  "candidates_shown =
     run sample_getAQIColor sample_js
       [SaveToken, Commit CtorOk, Search (code_units ''Par''), Commit CtorOk,
        SearchDone (Resolved (JArr [nowhere_json])), Commit CtorOk]
       (init_state (Some ''key''))"

definition torn_down :: state where
  "torn_down =
     run sample_getAQIColor sample_js
       [SaveToken, Commit CtorOk, Select paris, Commit CtorOk] (init_state (Some ''key''))"

definition data_arrived :: state where
  "data_arrived =
     run sample_getAQIColor sample_js
       [SaveToken, Commit CtorOk, InitialFetchDone (Resolved (JObj [(''data'', JArr [louvre])])),
        Commit CtorOk]
       (init_state (Some ''key''))"

definition data_arrived_late :: state where
  "data_arrived_late =
     run sample_getAQIColor sample_js
       [SaveToken, Commit CtorOk, Commit CtorOk,
        InitialFetchDone (Resolved (JObj [(''data'', JArr [louvre])])), Commit CtorOk]
       (init_state (Some ''key''))"

section \<open>The executions of the examples\<close>

lemmas eval_defs =
  handleSaveToken_def trim_def is_space_def init_state_def commit_def run_init_def run_aqi_def
  init_effect_def init_cleanup_def aqi_effect_def fetchAQIData_def new_map_def setIqairToken_def
  Let_def default_zoom_def

lemma initialized_eq:
  "initialized =
     \<lparr>mapContainer = True,
      maps = [\<lparr>center = (Num 39.8283, Num (- 98.5795)), zoom = 4, layers = [TileLayer],
               zoomControl = True, removed = False\<rparr>],
      map_current = Some 0, aqiData = JArr [], iqairToken = ''key'', showMap = True,
      searchResults = JArr [], selectedLocation = None, mapInitialized = True, toasts = [],
      requests = [DefaultBoundsReq ''24.396308,-125.000000,49.384358,-66.934570'' ''key''],
      localStorage = Some ''key'', renderedToken = ''key'', mounted = True,
      initDeps = Some (True, ''key'', False), initCleanup = True, aqiChanged = False\<rparr>"
  by (simp add: initialized_def eval_defs)

lemma map_gone_eq:
  "map_gone =
     initialized
       \<lparr>maps := [\<lparr>center = (Num 39.8283, Num (- 98.5795)), zoom = 4, layers = [],
                  zoomControl = True, removed = True\<rparr>],
        map_current := None, mapInitialized := False,
        initDeps := Some (True, ''key'', True), initCleanup := False\<rparr>"
proof -
  have "map_gone = commit sample_getAQIColor CtorOk initialized"
    by (simp add: map_gone_def initialized_def)
  then show ?thesis
    by (simp add: initialized_eq eval_defs)
qed

lemma code_units_Par: "code_units ''Par'' = [0x50, 0x61, 0x72]"
  by (simp add: code_units_def)

lemma search_Par:
  "handleSearch (code_units ''Par'') initialized =
     initialized\<lparr>requests := requests initialized @ [GeocodeReq [0x50, 0x61, 0x72]]\<rparr>"
  by (simp add: handleSearch_def code_units_Par is_lead_def is_trail_def)

lemma candidates_shown_eq:
  "candidates_shown =
     map_gone
       \<lparr>maps := maps map_gone @
          [\<lparr>center = (Num 39.8283, Num (- 98.5795)), zoom = 4, layers = [TileLayer],
            zoomControl = True, removed = False\<rparr>],
        map_current := Some 1, searchResults := JArr [nowhere_json], mapInitialized := True,
        requests := requests initialized @
          [GeocodeReq [0x50, 0x61, 0x72],
           DefaultBoundsReq ''24.396308,-125.000000,49.384358,-66.934570'' ''key''],
        initDeps := Some (True, ''key'', False), initCleanup := True\<rparr>"
proof -
  have "candidates_shown =
      commit sample_getAQIColor CtorOk
        (handleSearch_resume (Resolved (JArr [nowhere_json]))
          (commit sample_getAQIColor CtorOk (handleSearch (code_units ''Par'') initialized)))"
    by (simp add: candidates_shown_def initialized_def)
  then show ?thesis
    unfolding search_Par
    by (simp add: map_gone_eq initialized_eq eval_defs handleSearch_resume_def)
qed

section \<open>Reconciliation\<close>

subsection \<open>The effect creates the markers that the specification asks for\<close>

lemma add_points_append:
  "add_points col ps ls = ls @ List.map_filter (point_marker col) ps"
  by (induction ps arbitrary: ls) (auto split: option.splits)

lemma clear_circles_append:
  "clear_circles (ls @ ms) = clear_circles ls @ clear_circles ms"
  by (simp add: clear_circles_def)

lemma clear_circles_idem: "clear_circles (clear_circles ls) = clear_circles ls"
  by (simp add: clear_circles_def)

lemma point_marker_circle: "point_marker col p = Some m \<Longrightarrow> is_CircleMarker m"
  by (auto simp: point_marker_def split: if_splits option.splits json.splits)

lemma clear_circles_markers: "clear_circles (List.map_filter (point_marker col) ps) = []"
  by (induction ps) (auto simp: clear_circles_def dest: point_marker_circle split: option.splits)











subsection \<open>C6: idempotence\<close>

text \<open>
  C6: running the reconciliation twice on the same state, with no change in between,
  gives the state that running it once gives. This holds for every Dataset (a non-empty
  list, the empty list, a value that is not a list), with or without a live map.
\<close>

theorem reconcile_idempotent:
  "aqi_effect getAQIColor (aqi_effect getAQIColor s) = aqi_effect getAQIColor s"
proof (cases "map_current s")
  case None
  then show ?thesis by (simp add: aqi_effect_def)
next
  case (Some i)
  show ?thesis
  proof (cases "i < length (maps s)")
    case True
    with Some show ?thesis
      by (auto simp: aqi_effect_def add_points_append clear_circles_append clear_circles_idem
          clear_circles_markers split: json.splits)
  next
    case False
    with Some show ?thesis
      by (auto simp: aqi_effect_def list_update_beyond split: json.splits)
  qed
qed

text \<open>
  C6, an instance on \<open>sample_state\<close>.
\<close>

theorem reconcile_idempotent_witness:
  "layers (maps (aqi_effect sample_getAQIColor (aqi_effect sample_getAQIColor
      (setAqiData (JArr [reading 48.85 2.35 42]) sample_state))) ! 0) =
     [TileLayer, Marker (Num 1) (Num 2) ''Home'',
      CircleMarker 48.85 2.35 ''green'' 42 (JStr ''Unknown Station'')]"
  using reconcile_idempotent [of sample_getAQIColor "setAqiData (JArr [reading 48.85 2.35 42]) sample_state"]
  by (simp add: aqi_effect_def setAqiData_def sample_state_def init_state_def
      clear_circles_def point_marker_def reading_def sample_getAQIColor_def station_name_def)

subsection \<open>C7: malformed readings\<close>



section \<open>Fetching\<close>

subsection \<open>C3: a fetch without data, or that fails\<close>

lemma payload_cases:
  "payload d =
     (if truthy d then
        (case getprop d ''data'' of None \<Rightarrow> None | Some v \<Rightarrow> if truthy v then Some v else None)
      else None)"
  by (simp add: payload_def)

lemma location_fetch_rejected:
  "fetchAQIDataForLocation_resume Rejected s =
     s\<lparr>aqiData := JArr [], aqiChanged := True,
       toasts := toasts s @ [ToastError ''Failed to load air quality data'']\<rparr>"
  by (simp add: fetchAQIDataForLocation_resume_def setAqiData_def toast_add_def)

lemma location_fetch_no_payload:
  "payload d = None \<Longrightarrow>
   fetchAQIDataForLocation_resume (Resolved d) s =
     s\<lparr>aqiData := JArr [], aqiChanged := True,
       toasts := toasts s @
         [ToastWarning ''No air quality data available for this location'']\<rparr>"
  by (simp add: fetchAQIDataForLocation_resume_def setAqiData_def toast_add_def)

lemma location_fetch_payload:
  "payload d = Some v \<Longrightarrow>
   fetchAQIDataForLocation_resume (Resolved d) s = s\<lparr>aqiData := v, aqiChanged := True\<rparr>"
  by (simp add: fetchAQIDataForLocation_resume_def setAqiData_def)

lemma initial_fetch_rejected:
  "fetchAQIData_resume Rejected s =
     s\<lparr>aqiData := JArr [], aqiChanged := True,
       toasts := toasts s @
         [ToastError ''Failed to load air quality data. Please check your API key.'']\<rparr>"
  by (simp add: fetchAQIData_resume_def setAqiData_def toast_add_def)

lemma initial_fetch_no_payload:
  "payload d = None \<Longrightarrow>
   fetchAQIData_resume (Resolved d) s =
     s\<lparr>aqiData := JArr [], aqiChanged := True,
       toasts := toasts s @
         [ToastWarning ''No air quality data available. Please check your API key.'']\<rparr>"
  by (simp add: fetchAQIData_resume_def setAqiData_def toast_add_def)

lemma initial_fetch_payload:
  "payload d = Some v \<Longrightarrow>
   fetchAQIData_resume (Resolved d) s = s\<lparr>aqiData := v, aqiChanged := True\<rparr>"
  by (simp add: fetchAQIData_resume_def setAqiData_def)

lemma run_aqi_empty:
  "maps (run_aqi col (s\<lparr>aqiData := JArr [], aqiChanged := True, toasts := ts\<rparr>)) = maps s"
  "map_current (run_aqi col (s\<lparr>aqiData := JArr [], aqiChanged := True, toasts := ts\<rparr>))
     = map_current s"
  "toasts (run_aqi col (s\<lparr>aqiData := JArr [], aqiChanged := True, toasts := ts\<rparr>)) = ts"
  by (simp_all add: run_aqi_def aqi_effect_def split: option.splits)

text \<open>
  C3 as stated: a fetch whose response contains no data, or that meets a service error,
  leaves an empty Dataset and shows exactly one notification. The code tests
  \<^verbatim>\<open>response.data && response.data.data\<close>: the message of the error envelope is a
  non-empty string and an empty list is an object, and both are truthy. After the first
  commit, the envelope makes its message the Dataset, the empty list makes the Dataset
  empty, and neither shows a notification.
\<close>

theorem fetch_payload_counterexample:
  "aqiData (fetchAQIData_resume (Resolved error_envelope) initialized) = JStr ''Invalid key'' \<and>
   toasts (fetchAQIData_resume (Resolved error_envelope) initialized) = toasts initialized \<and>
   aqiData (fetchAQIData_resume (Resolved empty_envelope) initialized) = JArr [] \<and>
   toasts (fetchAQIData_resume (Resolved empty_envelope) initialized) = toasts initialized"
  by (simp add: fetchAQIData_resume_def payload_def setAqiData_def error_envelope_def
      empty_envelope_def)

text \<open>
  C3, amended: when the call is rejected, both continuations (the one of the initial load
  and the one after a selection) set the Dataset to the empty list and show exactly one
  error notification. When the response has no payload, they set the Dataset to the empty
  list and show exactly one warning. The texts are those of the source, and in both cases
  neither the continuation nor the reconciliation that follows changes a map object or the
  ref. When the response has a truthy \<open>data\<close> property, whatever it is, that value
  becomes the Dataset and nothing is notified.
\<close>

theorem fetch_outcomes:
  "aqiData (fetchAQIDataForLocation_resume Rejected s) = JArr []
   \<and> toasts (fetchAQIDataForLocation_resume Rejected s) =
       toasts s @ [ToastError ''Failed to load air quality data'']
   \<and> maps (run_aqi getAQIColor (fetchAQIDataForLocation_resume Rejected s)) = maps s
   \<and> map_current (run_aqi getAQIColor (fetchAQIDataForLocation_resume Rejected s)) =
       map_current s
   \<and> aqiData (fetchAQIData_resume Rejected s) = JArr []
   \<and> toasts (fetchAQIData_resume Rejected s) =
       toasts s @ [ToastError ''Failed to load air quality data. Please check your API key.'']
   \<and> maps (run_aqi getAQIColor (fetchAQIData_resume Rejected s)) = maps s
   \<and> map_current (run_aqi getAQIColor (fetchAQIData_resume Rejected s)) = map_current s
   \<and> (no_payload d \<longrightarrow>
        aqiData (fetchAQIDataForLocation_resume (Resolved d) s) = JArr []
      \<and> toasts (fetchAQIDataForLocation_resume (Resolved d) s) =
          toasts s @ [ToastWarning ''No air quality data available for this location'']
      \<and> maps (run_aqi getAQIColor (fetchAQIDataForLocation_resume (Resolved d) s)) = maps s
      \<and> map_current (run_aqi getAQIColor (fetchAQIDataForLocation_resume (Resolved d) s)) =
          map_current s
      \<and> aqiData (fetchAQIData_resume (Resolved d) s) = JArr []
      \<and> toasts (fetchAQIData_resume (Resolved d) s) =
          toasts s @
            [ToastWarning ''No air quality data available. Please check your API key.'']
      \<and> maps (run_aqi getAQIColor (fetchAQIData_resume (Resolved d) s)) = maps s
      \<and> map_current (run_aqi getAQIColor (fetchAQIData_resume (Resolved d) s)) =
          map_current s)
   \<and> (truthy d \<longrightarrow> getprop d ''data'' = Some v \<longrightarrow> truthy v \<longrightarrow>
        aqiData (fetchAQIDataForLocation_resume (Resolved d) s) = v
      \<and> toasts (fetchAQIDataForLocation_resume (Resolved d) s) = toasts s
      \<and> aqiData (fetchAQIData_resume (Resolved d) s) = v
      \<and> toasts (fetchAQIData_resume (Resolved d) s) = toasts s)"
proof -
  have rej: "aqiData (fetchAQIDataForLocation_resume Rejected s) = JArr []
   \<and> toasts (fetchAQIDataForLocation_resume Rejected s) =
       toasts s @ [ToastError ''Failed to load air quality data'']
   \<and> maps (run_aqi getAQIColor (fetchAQIDataForLocation_resume Rejected s)) = maps s
   \<and> map_current (run_aqi getAQIColor (fetchAQIDataForLocation_resume Rejected s)) =
       map_current s
   \<and> aqiData (fetchAQIData_resume Rejected s) = JArr []
   \<and> toasts (fetchAQIData_resume Rejected s) =
       toasts s @ [ToastError ''Failed to load air quality data. Please check your API key.'']
   \<and> maps (run_aqi getAQIColor (fetchAQIData_resume Rejected s)) = maps s
   \<and> map_current (run_aqi getAQIColor (fetchAQIData_resume Rejected s)) = map_current s"
    by (simp add: location_fetch_rejected initial_fetch_rejected run_aqi_empty)
  have none: "no_payload d \<longrightarrow>
        aqiData (fetchAQIDataForLocation_resume (Resolved d) s) = JArr []
      \<and> toasts (fetchAQIDataForLocation_resume (Resolved d) s) =
          toasts s @ [ToastWarning ''No air quality data available for this location'']
      \<and> maps (run_aqi getAQIColor (fetchAQIDataForLocation_resume (Resolved d) s)) = maps s
      \<and> map_current (run_aqi getAQIColor (fetchAQIDataForLocation_resume (Resolved d) s)) =
          map_current s
      \<and> aqiData (fetchAQIData_resume (Resolved d) s) = JArr []
      \<and> toasts (fetchAQIData_resume (Resolved d) s) =
          toasts s @
            [ToastWarning ''No air quality data available. Please check your API key.'']
      \<and> maps (run_aqi getAQIColor (fetchAQIData_resume (Resolved d) s)) = maps s
      \<and> map_current (run_aqi getAQIColor (fetchAQIData_resume (Resolved d) s)) =
          map_current s"
  proof
    assume "no_payload d"
    then have "payload d = None"
      by (auto simp: payload_def no_payload_def split: if_splits option.splits)
    then show "aqiData (fetchAQIDataForLocation_resume (Resolved d) s) = JArr []
      \<and> toasts (fetchAQIDataForLocation_resume (Resolved d) s) =
          toasts s @ [ToastWarning ''No air quality data available for this location'']
      \<and> maps (run_aqi getAQIColor (fetchAQIDataForLocation_resume (Resolved d) s)) = maps s
      \<and> map_current (run_aqi getAQIColor (fetchAQIDataForLocation_resume (Resolved d) s)) =
          map_current s
      \<and> aqiData (fetchAQIData_resume (Resolved d) s) = JArr []
      \<and> toasts (fetchAQIData_resume (Resolved d) s) =
          toasts s @
            [ToastWarning ''No air quality data available. Please check your API key.'']
      \<and> maps (run_aqi getAQIColor (fetchAQIData_resume (Resolved d) s)) = maps s
      \<and> map_current (run_aqi getAQIColor (fetchAQIData_resume (Resolved d) s)) =
          map_current s"
      by (simp add: location_fetch_no_payload initial_fetch_no_payload run_aqi_empty)
  qed
  have some: "truthy d \<longrightarrow> getprop d ''data'' = Some v \<longrightarrow> truthy v \<longrightarrow>
        aqiData (fetchAQIDataForLocation_resume (Resolved d) s) = v
      \<and> toasts (fetchAQIDataForLocation_resume (Resolved d) s) = toasts s
      \<and> aqiData (fetchAQIData_resume (Resolved d) s) = v
      \<and> toasts (fetchAQIData_resume (Resolved d) s) = toasts s"
  proof (intro impI)
    assume "truthy d" and "getprop d ''data'' = Some v" and "truthy v"
    then have "payload d = Some v"
      by (simp add: payload_def)
    then show "aqiData (fetchAQIDataForLocation_resume (Resolved d) s) = v
      \<and> toasts (fetchAQIDataForLocation_resume (Resolved d) s) = toasts s
      \<and> aqiData (fetchAQIData_resume (Resolved d) s) = v
      \<and> toasts (fetchAQIData_resume (Resolved d) s) = toasts s"
      by (simp add: location_fetch_payload initial_fetch_payload)
  qed
  show ?thesis
    using rej none some by blast
qed

text \<open>
  C3, instances after the first commit: a rejected call, a body without a \<open>data\<close>
  property, a body whose \<open>data\<close> is null, and a body with one reading.
\<close>

theorem fetch_outcomes_witness:
  "aqiData (fetchAQIData_resume Rejected initialized) = JArr [] \<and>
   toasts (fetchAQIData_resume Rejected initialized) =
     [ToastError ''Failed to load air quality data. Please check your API key.''] \<and>
   aqiData (fetchAQIDataForLocation_resume (Resolved (JObj [(''status'', JStr ''ok'')]))
      initialized) = JArr [] \<and>
   toasts (fetchAQIDataForLocation_resume (Resolved (JObj [(''status'', JStr ''ok'')]))
      initialized) = [ToastWarning ''No air quality data available for this location''] \<and>
   aqiData (fetchAQIData_resume (Resolved (JObj [(''data'', JNull)])) initialized) = JArr [] \<and>
   toasts (fetchAQIData_resume (Resolved (JObj [(''data'', JNull)])) initialized) =
     [ToastWarning ''No air quality data available. Please check your API key.''] \<and>
   aqiData (fetchAQIData_resume (Resolved (JObj [(''data'', JArr [louvre])])) initialized) =
     JArr [louvre] \<and>
   toasts (fetchAQIData_resume (Resolved (JObj [(''data'', JArr [louvre])])) initialized) = []"
  using fetch_outcomes [of initialized sample_getAQIColor "JObj [(''status'', JStr ''ok'')]"]
    fetch_outcomes [of initialized sample_getAQIColor "JObj [(''data'', JNull)]"]
    fetch_outcomes [of initialized sample_getAQIColor "JObj [(''data'', JArr [louvre])]"
      "JArr [louvre]"]
  by (simp add: initialized_eq no_payload_def)

section \<open>Search and selection\<close>

subsection \<open>C8: a failed search\<close>

text \<open>
  C8 as stated: after a search whose call fails the candidate list is empty. The
  \<^verbatim>\<open>catch\<close> branch sets no state, so candidates of an earlier search stay in the list.
\<close>

theorem search_failure_counterexample:
  "searchResults (handleSearch_resume Rejected
      (sample_state\<lparr>searchResults := JArr [JStr ''Paris'']\<rparr>)) \<noteq> JArr []"
  by (simp add: handleSearch_resume_def toast_add_def)

text \<open>
  C8, amended: a search whose call fails leaves the candidate list as it was, shows one
  error notification, and changes neither the Dataset nor a map object, the ref or the
  requests issued.
\<close>

theorem search_failure:
  "searchResults (handleSearch_resume Rejected s) = searchResults s
   \<and> toasts (handleSearch_resume Rejected s) =
       toasts s @ [ToastError ''Error searching for locations'']
   \<and> aqiData (handleSearch_resume Rejected s) = aqiData s
   \<and> aqiChanged (handleSearch_resume Rejected s) = aqiChanged s
   \<and> maps (handleSearch_resume Rejected s) = maps s
   \<and> map_current (handleSearch_resume Rejected s) = map_current s
   \<and> requests (handleSearch_resume Rejected s) = requests s"
  by (simp add: handleSearch_resume_def toast_add_def)

text \<open>
  C8, an instance: the first search of a session fails, and the list is still empty.
\<close>

theorem search_failure_witness:
  "searchResults (handleSearch_resume Rejected (init_state None)) = JArr [] \<and>
   toasts (handleSearch_resume Rejected (init_state None)) =
     [ToastError ''Error searching for locations'']"
  using search_failure [of "init_state None"]
  by (simp add: init_state_def)

subsection \<open>C9: the query and the candidates kept\<close>

text \<open>
  C9 as stated: a blank query issues no network call. The guard is \<^verbatim>\<open>!query\<close>, which
  holds for the empty string only: a query of two spaces is sent to the geocoding service.
\<close>

theorem blank_query_counterexample:
  "is_blank (code_units ''  '') \<and>
   requests (handleSearch (code_units ''  '') initialized) \<noteq> requests initialized"
  by (simp add: is_blank_def js_space_def code_units_def handleSearch_def is_lead_def
      is_trail_def)

text \<open>
  C9, amended: the empty query empties the candidate list, issues no request and notifies
  nothing. A query that is not empty and has no lone surrogate, a blank one included,
  issues one geocoding request and leaves the list as it is until the call settles; when
  the response is a list, the candidate list becomes its first five entries, in the order
  received (all of them when there are fewer). A query with a lone surrogate issues no
  request: building the URL throws, and the search error is notified.
\<close>

theorem search_results:
  "(query = [] \<longrightarrow>
      searchResults (handleSearch query s) = JArr [] \<and>
      requests (handleSearch query s) = requests s \<and>
      toasts (handleSearch query s) = toasts s)
   \<and> (query \<noteq> [] \<longrightarrow> uri_encodable query \<longrightarrow>
      requests (handleSearch query s) = requests s @ [GeocodeReq query] \<and>
      searchResults (handleSearch query s) = searchResults s \<and>
      toasts (handleSearch query s) = toasts s \<and>
      searchResults (handleSearch_resume (Resolved (JArr cands)) (handleSearch query s)) =
        JArr (take 5 cands) \<and>
      length (take 5 cands) \<le> 5 \<and>
      take 5 cands @ drop 5 cands = cands)
   \<and> (query \<noteq> [] \<longrightarrow> \<not> uri_encodable query \<longrightarrow>
      requests (handleSearch query s) = requests s \<and>
      searchResults (handleSearch query s) = searchResults s \<and>
      toasts (handleSearch query s) = toasts s @ [ToastError ''Error searching for locations''])"
  by (simp add: handleSearch_def handleSearch_resume_def toast_add_def)

text \<open>
  C9, instances: the empty query; a query answered by seven candidates; a query that is a
  surrogate pair; two queries with a lone surrogate.
\<close>

theorem search_results_witness:
  "requests (handleSearch [] initialized) = requests initialized \<and>
   searchResults (handleSearch [] initialized) = JArr [] \<and>
   uri_encodable (code_units ''Par'') \<and>
   requests (handleSearch (code_units ''Par'') initialized) =
     requests initialized @ [GeocodeReq [0x50, 0x61, 0x72]] \<and>
   searchResults (handleSearch_resume
      (Resolved (JArr [JNum 1, JNum 2, JNum 3, JNum 4, JNum 5, JNum 6, JNum 7]))
      (handleSearch (code_units ''Par'') initialized)) =
     JArr [JNum 1, JNum 2, JNum 3, JNum 4, JNum 5] \<and>
   uri_encodable [0xD83D, 0xDE00] \<and>
   requests (handleSearch [0xD83D, 0xDE00] initialized) =
     requests initialized @ [GeocodeReq [0xD83D, 0xDE00]] \<and>
   \<not> uri_encodable [0x50, 0xD800] \<and>
   requests (handleSearch [0x50, 0xD800] initialized) = requests initialized \<and>
   toasts (handleSearch [0x50, 0xD800] initialized) =
     [ToastError ''Error searching for locations''] \<and>
   \<not> uri_encodable [0xDE00, 0xD83D] \<and>
   toasts (handleSearch [0xDE00, 0xD83D] initialized) =
     [ToastError ''Error searching for locations'']"
  using search_results [of "[]" initialized "[]"]
    search_results [of "code_units ''Par''" initialized
      "[JNum 1, JNum 2, JNum 3, JNum 4, JNum 5, JNum 6, JNum 7]"]
    search_results [of "[0xD83D, 0xDE00]" initialized "[]"]
    search_results [of "[0x50, 0xD800]" initialized "[]"]
    search_results [of "[0xDE00, 0xD83D]" initialized "[]"]
  by (simp add: initialized_eq code_units_Par is_lead_def is_trail_def)

subsection \<open>C5: selecting a candidate\<close>

text \<open>
  C5 as stated: for every selected candidate the map is centred anew, one pin marker is
  placed, the candidate list is emptied and a fetch is issued. In \<open>candidates_shown\<close> a
  candidate whose latitude does not parse is on display over a live map. Selecting it
  leaves the map as it was (default view, no marker), the candidate list as it was, and
  issues no request.
\<close>

theorem select_unparsable_counterexample:
  "map_current candidates_shown = Some 1 \<and>
   searchResults candidates_shown = JArr [nowhere_json] \<and>
   parseFloat sample_js (lat nowhere) = NaN \<and>
   maps (handleSelectLocation sample_js nowhere candidates_shown) = maps candidates_shown \<and>
   center (maps (handleSelectLocation sample_js nowhere candidates_shown) ! 1) =
     (Num 39.8283, Num (- 98.5795)) \<and>
   zoom (maps (handleSelectLocation sample_js nowhere candidates_shown) ! 1) = 4 \<and>
   layers (maps (handleSelectLocation sample_js nowhere candidates_shown) ! 1) = [TileLayer] \<and>
   searchResults (handleSelectLocation sample_js nowhere candidates_shown) \<noteq> JArr [] \<and>
   requests (handleSelectLocation sample_js nowhere candidates_shown) =
     requests candidates_shown"
  by (simp add: candidates_shown_eq map_gone_eq initialized_eq handleSelectLocation_def Let_def
      sample_js_def nowhere_def)

text \<open>
  C5, amended: with a live map and a candidate whose coordinates both parse to numbers,
  \<^verbatim>\<open>handleSelectLocation\<close> centres the map on the parsed coordinate at zoom 12, above the
  zoom 4 the map is created with; afterwards the map has exactly one pin marker, at that
  coordinate and labelled with the display name, and its other layers as before; the
  candidate list is empty, the coordinate is recorded, and one request is issued, whose
  bounds are the results of subtracting 0.18 from the latitude and the longitude and of
  adding 0.18 to them, in the arithmetic of doubles.
\<close>

theorem select_location:
  assumes "map_current s = Some i" and "i < length (maps s)"
    and "parseFloat js (lat loc) \<noteq> NaN" and "parseFloat js (lon loc) \<noteq> NaN"
    and "s' = handleSelectLocation js loc s"
  shows "center (maps s' ! i) = (parseFloat js (lat loc), parseFloat js (lon loc))
       \<and> zoom (maps s' ! i) = selection_zoom
       \<and> zoom new_map < selection_zoom
       \<and> filter is_Marker (layers (maps s' ! i)) =
           [Marker (parseFloat js (lat loc)) (parseFloat js (lon loc)) (display_name loc)]
       \<and> filter (\<lambda>l. \<not> is_Marker l) (layers (maps s' ! i)) =
           filter (\<lambda>l. \<not> is_Marker l) (layers (maps s ! i))
       \<and> searchResults s' = JArr []
       \<and> selectedLocation s' = Some (parseFloat js (lat loc), parseFloat js (lon loc))
       \<and> requests s' = requests s @
           [BoundsReq (fsub js (parseFloat js (lat loc)) (Num 0.18))
              (fsub js (parseFloat js (lon loc)) (Num 0.18))
              (fadd js (parseFloat js (lat loc)) (Num 0.18))
              (fadd js (parseFloat js (lon loc)) (Num 0.18))
              (renderedToken s)]"
  using assms
  by (simp add: handleSelectLocation_def Let_def fetchAQIDataForLocation_def offset_def
      selection_zoom_def default_zoom_def new_map_def)

text \<open>
  C5, the example of Paris: the bounds requested are 48.6766, 2.1721999999999997, 49.0366
  and 2.5322, which round to 48.68, 2.17, 49.04 and 2.53.
\<close>

theorem select_location_witness:
  "map_current sample_state = Some 0 \<and> 0 < length (maps sample_state) \<and>
   parseFloat sample_js (lat paris) = Num 48.8566 \<and>
   parseFloat sample_js (lon paris) = Num 2.3522 \<and>
   center (maps (handleSelectLocation sample_js paris sample_state) ! 0) =
     (Num 48.8566, Num 2.3522) \<and>
   zoom (maps (handleSelectLocation sample_js paris sample_state) ! 0) = 12 \<and>
   layers (maps (handleSelectLocation sample_js paris sample_state) ! 0) =
     [TileLayer, CircleMarker 10 20 ''red'' 80 (JStr ''Old''),
      Marker (Num 48.8566) (Num 2.3522) ''Paris''] \<and>
   searchResults (handleSelectLocation sample_js paris sample_state) = JArr [] \<and>
   requests (handleSelectLocation sample_js paris sample_state) =
     [BoundsReq (Num 48.6766) (Num 2.1721999999999997) (Num 49.0366) (Num 2.5322) ''key''] \<and>
   \<bar>48.6766 - 48.68\<bar> < (0.005 :: real) \<and> \<bar>2.1721999999999997 - 2.17\<bar> < (0.005 :: real) \<and>
   \<bar>49.0366 - 49.04\<bar> < (0.005 :: real) \<and> \<bar>2.5322 - 2.53\<bar> < (0.005 :: real)"
  using select_location [of sample_state 0 sample_js paris, OF _ _ _ _ refl]
  by (simp add: sample_state_def init_state_def sample_js_def paris_def
      handleSelectLocation_def Let_def fetchAQIDataForLocation_def offset_def
      selection_zoom_def new_map_def)

subsection \<open>C10: selecting a candidate without a map\<close>

text \<open>
  C10: when the ref is null, \<^verbatim>\<open>handleSelectLocation\<close> touches no map object, and still
  empties the candidate list, records the parsed coordinate and issues the request for the
  region. When that fetch brings a payload, it becomes the Dataset, although there is no
  map; the reconciliation that follows changes no map object.
\<close>

theorem select_without_map:
  assumes "map_current s = None" and "s' = handleSelectLocation js loc s"
  shows "maps s' = maps s
       \<and> map_current s' = None
       \<and> searchResults s' = JArr []
       \<and> selectedLocation s' = Some (parseFloat js (lat loc), parseFloat js (lon loc))
       \<and> requests s' = requests s @
           [BoundsReq (fsub js (parseFloat js (lat loc)) (Num 0.18))
              (fsub js (parseFloat js (lon loc)) (Num 0.18))
              (fadd js (parseFloat js (lat loc)) (Num 0.18))
              (fadd js (parseFloat js (lon loc)) (Num 0.18))
              (renderedToken s)]
       \<and> (truthy v \<longrightarrow>
            aqiData (fetchAQIDataForLocation_resume (Resolved (JObj [(''data'', v)])) s') = v)
       \<and> maps (run_aqi getAQIColor (fetchAQIDataForLocation_resume r s')) = maps s"
proof -
  have s': "s' = fetchAQIDataForLocation js (parseFloat js (lat loc)) (parseFloat js (lon loc))
      (s\<lparr>selectedLocation := Some (parseFloat js (lat loc), parseFloat js (lon loc)),
         searchResults := JArr []\<rparr>)"
    using assms by (simp add: handleSelectLocation_def Let_def)
  have m: "maps (run_aqi getAQIColor (fetchAQIDataForLocation_resume r s')) = maps s"
    using assms(1)
    by (simp add: s' fetchAQIDataForLocation_def fetchAQIDataForLocation_resume_def
        setAqiData_def toast_add_def run_aqi_def aqi_effect_def
        split: outcome.splits option.splits)
  show ?thesis
    using assms(1) m
    by (simp add: s' fetchAQIDataForLocation_def fetchAQIDataForLocation_resume_def
        setAqiData_def payload_def offset_def)
qed

text \<open>
  C10, an instance: Paris is selected in \<open>map_gone\<close>, where the ref is null.
\<close>

theorem select_without_map_witness:
  "map_current map_gone = None \<and>
   maps (handleSelectLocation sample_js paris map_gone) = maps map_gone \<and>
   searchResults (handleSelectLocation sample_js paris map_gone) = JArr [] \<and>
   selectedLocation (handleSelectLocation sample_js paris map_gone) =
     Some (Num 48.8566, Num 2.3522) \<and>
   requests (handleSelectLocation sample_js paris map_gone) =
     requests map_gone @
       [BoundsReq (Num 48.6766) (Num 2.1721999999999997) (Num 49.0366) (Num 2.5322) ''key''] \<and>
   aqiData (fetchAQIDataForLocation_resume
      (Resolved (JObj [(''data'', JArr [reading 48.85 2.35 42])]))
      (handleSelectLocation sample_js paris map_gone)) = JArr [reading 48.85 2.35 42]"
  using select_without_map [of map_gone _ sample_js paris "JArr [reading 48.85 2.35 42]",
      OF _ refl]
  by (simp add: map_gone_eq initialized_eq sample_js_def paris_def)

section \<open>Map lifecycle\<close>

subsection \<open>The invariant is kept by every event\<close>

lemma lifecycle_ok_cong:
  "maps s' = maps s \<Longrightarrow> map_current s' = map_current s \<Longrightarrow> initCleanup s' = initCleanup s
   \<Longrightarrow> lifecycle_ok s' = lifecycle_ok s"
  by (simp add: lifecycle_ok_def split: option.splits)

lemma lifecycle_ok_upd:
  "lifecycle_ok (s\<lparr>aqiChanged := b\<rparr>) = lifecycle_ok s"
  "lifecycle_ok (s\<lparr>mapContainer := b\<rparr>) = lifecycle_ok s"
  "lifecycle_ok (s\<lparr>iqairToken := t\<rparr>) = lifecycle_ok s"
  "lifecycle_ok (s\<lparr>renderedToken := t\<rparr>) = lifecycle_ok s"
  "lifecycle_ok (s\<lparr>toasts := ts\<rparr>) = lifecycle_ok s"
  "lifecycle_ok (s\<lparr>requests := rs\<rparr>) = lifecycle_ok s"
  "lifecycle_ok (s\<lparr>searchResults := c\<rparr>) = lifecycle_ok s"
  "lifecycle_ok (s\<lparr>aqiData := v\<rparr>) = lifecycle_ok s"
  "lifecycle_ok (s\<lparr>showMap := b\<rparr>) = lifecycle_ok s"
  "lifecycle_ok (s\<lparr>localStorage := l\<rparr>) = lifecycle_ok s"
  by (simp_all add: lifecycle_ok_def split: option.splits)

lemma lifecycle_ok_init: "lifecycle_ok (init_state stored)"
  by (simp add: lifecycle_ok_def init_state_def)

lemma init_cleanup_released:
  assumes "lifecycle_ok s"
  shows "map_current (init_cleanup s) = None"
    and "length (maps (init_cleanup s)) = length (maps s)"
    and "j < length (maps s) \<Longrightarrow> removed (maps (init_cleanup s) ! j)"
    and "j < length (maps s) \<Longrightarrow> removed (maps s ! j) \<Longrightarrow> maps (init_cleanup s) ! j = maps s ! j"
  using assms
  by (auto simp: lifecycle_ok_def init_cleanup_def nth_list_update split: option.splits)

lemma aqi_effect_frame:
  assumes "lifecycle_ok s"
  shows "map_current (aqi_effect col s) = map_current s"
    and "initCleanup (aqi_effect col s) = initCleanup s"
    and "length (maps (aqi_effect col s)) = length (maps s)"
    and "j < length (maps s) \<Longrightarrow> removed (maps (aqi_effect col s) ! j) = removed (maps s ! j)"
    and "j < length (maps s) \<Longrightarrow> removed (maps s ! j) \<Longrightarrow> maps (aqi_effect col s) ! j = maps s ! j"
  using assms
  by (auto simp: lifecycle_ok_def aqi_effect_def nth_list_update split: option.splits json.splits)

lemma select_frame:
  assumes "lifecycle_ok s"
  shows "map_current (handleSelectLocation js loc s) = map_current s"
    and "initCleanup (handleSelectLocation js loc s) = initCleanup s"
    and "length (maps (handleSelectLocation js loc s)) = length (maps s)"
    and "j < length (maps s) \<Longrightarrow>
           removed (maps (handleSelectLocation js loc s) ! j) = removed (maps s ! j)"
    and "j < length (maps s) \<Longrightarrow> removed (maps s ! j) \<Longrightarrow>
           maps (handleSelectLocation js loc s) ! j = maps s ! j"
  using assms
  by (auto simp: lifecycle_ok_def handleSelectLocation_def Let_def fetchAQIDataForLocation_def
      nth_list_update split: option.splits if_splits)

lemma init_effect_frame:
  assumes "map_current s = None" and "\<forall>j < length (maps s). removed (maps s ! j)"
  shows "lifecycle_ok ((fst (init_effect oc a b c s))
           \<lparr>initDeps := d, initCleanup := snd (init_effect oc a b c s)\<rparr>)"
    and "length (maps s) \<le> length (maps (fst (init_effect oc a b c s)))"
    and "j < length (maps s) \<Longrightarrow> maps (fst (init_effect oc a b c s)) ! j = maps s ! j"
  using assms
  by (auto simp: init_effect_def lifecycle_ok_def toast_add_def fetchAQIData_def nth_append
      new_map_def split: ctor_outcome.splits)

lemma before_init:
  assumes "lifecycle_ok s"
  shows "map_current (if initCleanup s then init_cleanup s else s) = None"
    and "length (maps (if initCleanup s then init_cleanup s else s)) = length (maps s)"
    and "\<forall>j < length (maps s). removed (maps (if initCleanup s then init_cleanup s else s) ! j)"
    and "j < length (maps s) \<Longrightarrow> removed (maps s ! j) \<Longrightarrow>
           maps (if initCleanup s then init_cleanup s else s) ! j = maps s ! j"
  using assms init_cleanup_released [OF assms]
  by (auto simp: lifecycle_ok_def split: option.splits)

lemma run_init_frame:
  assumes "lifecycle_ok s"
  shows "lifecycle_ok (run_init oc s)"
    and "length (maps s) \<le> length (maps (run_init oc s))"
    and "j < length (maps s) \<Longrightarrow> removed (maps s ! j) \<Longrightarrow> maps (run_init oc s) ! j = maps s ! j"
    and "length (maps s) < length (maps (run_init oc s)) \<Longrightarrow> j < length (maps s) \<Longrightarrow>
           removed (maps (run_init oc s) ! j)"
proof -
  let ?s1 = "if initCleanup s then init_cleanup s else s"
  let ?r = "init_effect oc (showMap s) (iqairToken s) (mapInitialized s) ?s1"
  note b = before_init [OF assms]
  have all: "\<forall>j < length (maps ?s1). removed (maps ?s1 ! j)"
    using b(2,3) by simp
  note e = init_effect_frame [OF b(1) all, where oc = oc and a = "showMap s" and b = "iqairToken s"
      and c = "mapInitialized s"]
  show "lifecycle_ok (run_init oc s)"
    using assms e(1) by (simp add: run_init_def Let_def)
  show "length (maps s) \<le> length (maps (run_init oc s))"
    using e(2) b(2) by (simp add: run_init_def Let_def)
  show "j < length (maps s) \<Longrightarrow> removed (maps s ! j) \<Longrightarrow> maps (run_init oc s) ! j = maps s ! j"
    using e(3) [where j = j] b(2) b(4) [where j = j] by (simp add: run_init_def Let_def)
  show "length (maps s) < length (maps (run_init oc s)) \<Longrightarrow> j < length (maps s) \<Longrightarrow>
           removed (maps (run_init oc s) ! j)"
    using e(3) [where j = j] b(2) b(3) by (simp add: run_init_def Let_def split: if_splits)
qed

lemma run_aqi_frame:
  assumes "lifecycle_ok s"
  shows "lifecycle_ok (run_aqi col s)"
    and "length (maps (run_aqi col s)) = length (maps s)"
    and "j < length (maps s) \<Longrightarrow> removed (maps (run_aqi col s) ! j) = removed (maps s ! j)"
    and "j < length (maps s) \<Longrightarrow> removed (maps s ! j) \<Longrightarrow> maps (run_aqi col s) ! j = maps s ! j"
proof -
  note a = aqi_effect_frame [OF assms, where col = col]
  have "lifecycle_ok (aqi_effect col s)"
    using assms a(1,2,3) a(4)
    by (auto simp: lifecycle_ok_def split: option.splits)
  then show "lifecycle_ok (run_aqi col s)"
    using assms by (simp add: run_aqi_def lifecycle_ok_upd)
  show "length (maps (run_aqi col s)) = length (maps s)"
    using a(3) by (simp add: run_aqi_def)
  show "j < length (maps s) \<Longrightarrow> removed (maps (run_aqi col s) ! j) = removed (maps s ! j)"
    using a(4) by (simp add: run_aqi_def)
  show "j < length (maps s) \<Longrightarrow> removed (maps s ! j) \<Longrightarrow> maps (run_aqi col s) ! j = maps s ! j"
    using a(5) by (simp add: run_aqi_def)
qed

lemma commit_frame:
  assumes "lifecycle_ok s"
  shows "lifecycle_ok (commit col oc s)"
    and "length (maps s) \<le> length (maps (commit col oc s))"
    and "j < length (maps s) \<Longrightarrow> removed (maps s ! j) \<Longrightarrow> maps (commit col oc s) ! j = maps s ! j"
    and "length (maps s) < length (maps (commit col oc s)) \<Longrightarrow> j < length (maps s) \<Longrightarrow>
           removed (maps (commit col oc s) ! j)"
proof -
  let ?s0 = "s\<lparr>mapContainer := showMap s, renderedToken := iqairToken s\<rparr>"
  have ok0: "lifecycle_ok ?s0"
    using assms by (simp add: lifecycle_ok_upd)
  note i = run_init_frame [OF ok0, where oc = oc]
  note a = run_aqi_frame [OF i(1), where col = col]
  show "lifecycle_ok (commit col oc s)"
    using assms a(1) by (simp add: commit_def)
  show "length (maps s) \<le> length (maps (commit col oc s))"
    using i(2) a(2) by (simp add: commit_def)
  show "j < length (maps s) \<Longrightarrow> removed (maps s ! j) \<Longrightarrow> maps (commit col oc s) ! j = maps s ! j"
    using i(2) i(3) [where j = j] a(4) [where j = j] by (simp add: commit_def)
  show "length (maps s) < length (maps (commit col oc s)) \<Longrightarrow> j < length (maps s) \<Longrightarrow>
           removed (maps (commit col oc s) ! j)"
    using i(2) i(4) [where j = j] a(2) a(3) [where j = j]
    by (simp add: commit_def split: if_splits)
qed

lemma unmount_frame:
  assumes "lifecycle_ok s"
  shows "lifecycle_ok (unmount s)"
    and "length (maps (unmount s)) = length (maps s)"
    and "j < length (maps s) \<Longrightarrow> removed (maps s ! j) \<Longrightarrow> maps (unmount s) ! j = maps s ! j"
proof -
  note b = before_init [OF assms]
  show "lifecycle_ok (unmount s)"
    using assms b(1,2,3) by (simp add: unmount_def lifecycle_ok_def)
  show "length (maps (unmount s)) = length (maps s)"
    using b(2) by (simp add: unmount_def)
  show "j < length (maps s) \<Longrightarrow> removed (maps s ! j) \<Longrightarrow> maps (unmount s) ! j = maps s ! j"
    using b(4) [where j = j] by (simp add: unmount_def)
qed

lemma select_ok:
  assumes "lifecycle_ok s"
  shows "lifecycle_ok (handleSelectLocation js loc s)"
  using assms select_frame [OF assms, where js = js and loc = loc]
  by (auto simp: lifecycle_ok_def split: option.splits)

lemma step_frame:
  assumes "lifecycle_ok s"
  shows "lifecycle_ok (step col js e s)"
    and "length (maps s) \<le> length (maps (step col js e s))"
    and "j < length (maps s) \<Longrightarrow> removed (maps s ! j) \<Longrightarrow> maps (step col js e s) ! j = maps s ! j"
    and "length (maps s) < length (maps (step col js e s)) \<Longrightarrow> j < length (maps s) \<Longrightarrow>
           removed (maps (step col js e s) ! j)"
proof -
  note c = commit_frame [OF assms, where col = col]
  note u = unmount_frame [OF assms]
  note h = select_frame [OF assms, where js = js] select_ok [OF assms, where js = js]
  have plain:
    "lifecycle_ok (setIqairToken v s)" "maps (setIqairToken v s) = maps s"
    "lifecycle_ok (handleSaveToken s)" "maps (handleSaveToken s) = maps s"
    "lifecycle_ok (handleSearch q s)" "maps (handleSearch q s) = maps s"
    "lifecycle_ok (handleSearch_resume r s)" "maps (handleSearch_resume r s) = maps s"
    "lifecycle_ok (fetchAQIDataForLocation_resume r s)"
    "maps (fetchAQIDataForLocation_resume r s) = maps s"
    "lifecycle_ok (fetchAQIData_resume r s)" "maps (fetchAQIData_resume r s) = maps s"
    for v q r
    using assms
    by (simp_all add: setIqairToken_def handleSaveToken_def handleSearch_def
        handleSearch_resume_def fetchAQIDataForLocation_resume_def fetchAQIData_resume_def
        setAqiData_def toast_add_def lifecycle_ok_upd
        split: outcome.splits json.splits option.splits)
  show "lifecycle_ok (step col js e s)"
    by (cases e) (simp_all add: plain c(1) u(1) h(6))
  show "length (maps s) \<le> length (maps (step col js e s))"
    by (cases e) (simp_all add: plain c(2) u(2) h(3))
  show "j < length (maps s) \<Longrightarrow> removed (maps s ! j) \<Longrightarrow> maps (step col js e s) ! j = maps s ! j"
    by (cases e) (simp_all add: plain c(3) u(3) h(5))
  show "length (maps s) < length (maps (step col js e s)) \<Longrightarrow> j < length (maps s) \<Longrightarrow>
           removed (maps (step col js e s) ! j)"
    by (cases e) (simp_all add: plain c(4) u(2) h(3))
qed

lemma run_ok: "lifecycle_ok s \<Longrightarrow> lifecycle_ok (run col js es s)"
  by (induction es arbitrary: s) (simp_all add: step_frame(1))

lemma run_append: "run col js (es @ es') s = run col js es' (run col js es s)"
  by (induction es arbitrary: s) simp_all

lemma run_released:
  "lifecycle_ok s \<Longrightarrow> j < length (maps s) \<Longrightarrow> removed (maps s ! j) \<Longrightarrow>
   j < length (maps (run col js es s)) \<and> maps (run col js es s) ! j = maps s ! j"
proof (induction es arbitrary: s)
  case Nil
  then show ?case by simp
next
  case (Cons e es)
  note f = step_frame [OF Cons.prems(1), where col = col and js = js and e = e]
  have j: "j < length (maps (step col js e s))"
    using f(2) Cons.prems(2) by simp
  have m: "maps (step col js e s) ! j = maps s ! j"
    using f(3) Cons.prems(2,3) by simp
  have "j < length (maps (run col js es (step col js e s))) \<and>
        maps (run col js es (step col js e s)) ! j = maps (step col js e s) ! j"
    using Cons.IH [OF f(1) j] m Cons.prems(3) by simp
  then show ?case
    using m by simp
qed

text \<open>
  In every state of every execution at most one map object is live, and it is the one the
  ref points to. Unmounting leaves the ref null and every map object removed.
\<close>

lemma one_live_map:
  assumes "s = run col js es (init_state stored)"
    and "j < length (maps s)" and "k < length (maps s)"
    and "\<not> removed (maps s ! j)" and "\<not> removed (maps s ! k)"
  shows "j = k \<and> map_current s = Some j"
proof -
  have "lifecycle_ok s"
    using assms(1) by (simp add: run_ok lifecycle_ok_init)
  then show ?thesis
    using assms(2-5) by (auto simp: lifecycle_ok_def split: option.splits)
qed

lemma unmount_releases:
  assumes "s = run col js es (init_state stored)" and "mounted s"
  shows "map_current (unmount s) = None
       \<and> (\<forall>j < length (maps s). removed (maps (unmount s) ! j))
       \<and> length (maps (unmount s)) = length (maps s)
       \<and> \<not> mounted (unmount s)"
proof -
  have ok: "lifecycle_ok s"
    using assms(1) by (simp add: run_ok lifecycle_ok_init)
  note b = before_init [OF ok]
  show ?thesis
    using assms(2) b(1,2,3) by (simp add: unmount_def)
qed

subsection \<open>C4: a fetch that settles after the teardown\<close>

lemma torn_down_eq:
  "torn_down =
     initialized
       \<lparr>maps := [\<lparr>center = (Num 48.8566, Num 2.3522), zoom = 12, layers = [],
                  zoomControl = True, removed = True\<rparr>],
        map_current := None, searchResults := JArr [],
        selectedLocation := Some (Num 48.8566, Num 2.3522), mapInitialized := False,
        requests := requests initialized @
          [BoundsReq (Num 48.6766) (Num 2.1721999999999997) (Num 49.0366) (Num 2.5322) ''key''],
        initDeps := Some (True, ''key'', True), initCleanup := False\<rparr>"
proof -
  have sel: "handleSelectLocation sample_js paris initialized =
      initialized
        \<lparr>maps := [\<lparr>center = (Num 48.8566, Num 2.3522), zoom = 12,
                   layers = [TileLayer, Marker (Num 48.8566) (Num 2.3522) ''Paris''],
                   zoomControl = True, removed = False\<rparr>],
         searchResults := JArr [], selectedLocation := Some (Num 48.8566, Num 2.3522),
         requests := requests initialized @
           [BoundsReq (Num 48.6766) (Num 2.1721999999999997) (Num 49.0366) (Num 2.5322)
              ''key'']\<rparr>"
    by (simp add: initialized_eq handleSelectLocation_def Let_def fetchAQIDataForLocation_def
        offset_def selection_zoom_def sample_js_def paris_def)
  have "torn_down =
      commit sample_getAQIColor CtorOk (handleSelectLocation sample_js paris initialized)"
    by (simp add: torn_down_def initialized_def)
  then show ?thesis
    unfolding sel by (simp add: initialized_eq eval_defs)
qed

text \<open>
  C4: in every execution, once a map object has been removed, no later event changes
  it and the ref never points to it again; in particular not the settling of a fetch that
  was in flight at the teardown, nor the commit and the reconciliation that follow it.
\<close>

theorem released_map_untouched:
  assumes "s = run col js es (init_state stored)"
    and "j < length (maps s)" and "removed (maps s ! j)"
  shows "maps (run col js es' s) ! j = maps s ! j
       \<and> map_current (run col js es' s) \<noteq> Some j"
proof -
  have ok: "lifecycle_ok s"
    using assms(1) by (simp add: run_ok lifecycle_ok_init)
  have same: "j < length (maps (run col js es' s)) \<and> maps (run col js es' s) ! j = maps s ! j"
    using ok assms(2,3) by (rule run_released)
  have "lifecycle_ok (run col js es' s)"
    using ok by (rule run_ok)
  then have "map_current (run col js es' s) \<noteq> Some j"
    using same assms(3) by (auto simp: lifecycle_ok_def)
  then show ?thesis
    using same by simp
qed

text \<open>
  C4, an instance: in \<open>torn_down\<close> the map is removed while the fetch for Paris is in
  flight. The fetch then brings one reading and React commits: the removed map is as it
  was, without layers; the marker is on the map that this commit creates.
\<close>

theorem released_map_untouched_witness:
  "0 < length (maps torn_down) \<and> removed (maps torn_down ! 0) \<and>
   layers (maps torn_down ! 0) = [] \<and>
   maps (run sample_getAQIColor sample_js
      [LocationFetchDone (Resolved (JObj [(''data'', JArr [reading 48.85 2.35 42])])),
       Commit CtorOk] torn_down) ! 0 = maps torn_down ! 0 \<and>
   layers (maps (run sample_getAQIColor sample_js
      [LocationFetchDone (Resolved (JObj [(''data'', JArr [reading 48.85 2.35 42])])),
       Commit CtorOk] torn_down) ! 1) =
     [TileLayer, CircleMarker 48.85 2.35 ''green'' 42 (JStr ''Unknown Station'')]"
  using released_map_untouched [OF torn_down_def, of 0
      "[LocationFetchDone (Resolved (JObj [(''data'', JArr [reading 48.85 2.35 42])])),
        Commit CtorOk]"]
  by (simp add: torn_down_eq initialized_eq eval_defs fetchAQIDataForLocation_resume_def
      payload_def setAqiData_def reading_def point_marker_def station_name_def
      sample_getAQIColor_def clear_circles_def)

subsection \<open>The effect triggers itself\<close>

text \<open>
  The effect lists \<^verbatim>\<open>mapInitialized\<close> among its dependencies and sets it itself, after
  it has created the map. The commit that follows therefore runs the effect again, and
  its cleanup removes the map: as long as adding the zoom control does not throw, no map
  outlives the commit after the one that created it.
\<close>

lemma self_triggering_init: "self_triggering (init_state stored)"
  by (simp add: self_triggering_def init_state_def)

lemma self_triggering_cong:
  "map_current s' = map_current s \<Longrightarrow> mounted s' = mounted s \<Longrightarrow>
   mapInitialized s' = mapInitialized s \<Longrightarrow> initCleanup s' = initCleanup s \<Longrightarrow>
   initDeps s' = initDeps s \<Longrightarrow> self_triggering s' = self_triggering s"
  by (simp add: self_triggering_def split: option.splits)

lemma init_effect_guard: "init_effect oc sm tok True s = (s, False)"
  by (simp add: init_effect_def)

lemma run_init_live:
  assumes "self_triggering s" and "map_current s = Some i"
  shows "run_init oc s =
     (init_cleanup s)\<lparr>initDeps := Some (showMap s, iqairToken s, True), initCleanup := False\<rparr>"
proof -
  obtain a b where d: "initDeps s = Some (a, b, False)"
    and f: "mapInitialized s" "initCleanup s"
    using assms by (auto simp: self_triggering_def)
  show ?thesis
    using d f by (simp add: run_init_def Let_def init_effect_guard)
qed

lemma run_aqi_no_map:
  "map_current s = None \<Longrightarrow> run_aqi col s = s\<lparr>aqiChanged := False\<rparr>"
  by (simp add: run_aqi_def aqi_effect_def)

lemma commit_live:
  assumes "self_triggering s" and "map_current s = Some i"
  shows "commit col oc s =
     (init_cleanup (s\<lparr>mapContainer := showMap s, renderedToken := iqairToken s\<rparr>))
       \<lparr>initDeps := Some (showMap s, iqairToken s, True), initCleanup := False,
        aqiChanged := False\<rparr>"
proof -
  let ?s0 = "s\<lparr>mapContainer := showMap s, renderedToken := iqairToken s\<rparr>"
  have m: "mounted s"
    using assms by (simp add: self_triggering_def)
  have t0: "self_triggering ?s0"
    using assms(1) by (simp add: self_triggering_def split: option.splits)
  have c0: "map_current ?s0 = Some i"
    using assms(2) by simp
  have r: "run_init oc ?s0 =
      (init_cleanup ?s0)\<lparr>initDeps := Some (showMap s, iqairToken s, True),
        initCleanup := False\<rparr>"
    using run_init_live [OF t0 c0, of oc] by simp
  have n: "map_current ((init_cleanup ?s0)\<lparr>initDeps := Some (showMap s, iqairToken s, True),
        initCleanup := False\<rparr>) = None"
    using assms(2) by (simp add: init_cleanup_def)
  show ?thesis
    using m by (simp add: commit_def r run_aqi_no_map [OF n])
qed

lemma commit_destroys:
  assumes "self_triggering s" and "map_current s = Some i"
  shows "map_current (commit col oc s) = None"
    and "i < length (maps s) \<Longrightarrow> removed (maps (commit col oc s) ! i)"
    and "i < length (maps s) \<Longrightarrow> layers (maps (commit col oc s) ! i) = []"
  using assms(2) by (simp_all add: commit_live [OF assms] init_cleanup_def)

lemma commit_self_triggering:
  assumes "self_triggering s" and "fault_free (Commit oc)"
  shows "self_triggering (commit col oc s)"
proof (cases "map_current s")
  case (Some i)
  then have "map_current (commit col oc s) = None"
    using assms(1) by (simp add: commit_destroys(1))
  then show ?thesis by (simp add: self_triggering_def)
next
  case None
  let ?s0 = "s\<lparr>mapContainer := showMap s, renderedToken := iqairToken s\<rparr>"
  have oc: "oc \<noteq> ZoomControlThrows"
    using assms(2) by (cases oc) simp_all
  have s1: "init_cleanup ?s0 = ?s0"
    using None by (simp add: init_cleanup_def)
  have aq: "self_triggering (run_aqi col t) = self_triggering t" for t
    by (rule self_triggering_cong)
      (simp_all add: run_aqi_def aqi_effect_def split: option.splits json.splits)
  have t0: "self_triggering ?s0"
    using None by (simp add: self_triggering_def)
  show ?thesis
  proof (cases "mounted s")
    case False
    then show ?thesis using assms(1) by (simp add: commit_def)
  next
    case True
    show ?thesis
    proof (cases "initDeps s = Some (showMap s, iqairToken s, mapInitialized s)")
      case same: True
      then have "run_init oc ?s0 = ?s0"
        by (simp add: run_init_def Let_def)
      then show ?thesis
        using True t0 by (simp add: commit_def aq)
    next
      case diff: False
      let ?r = "init_effect oc (showMap s) (iqairToken s) (mapInitialized s) ?s0"
      have r: "run_init oc ?s0 =
          (fst ?r)\<lparr>initDeps := Some (showMap s, iqairToken s, mapInitialized s),
            initCleanup := snd ?r\<rparr>"
        using diff by (simp add: run_init_def Let_def s1)
      have "self_triggering ((fst ?r)\<lparr>initDeps := Some (showMap s, iqairToken s, mapInitialized s),
            initCleanup := snd ?r\<rparr>)"
      proof (cases "mapInitialized s")
        case mi: True
        then show ?thesis
          using None by (simp add: init_effect_guard self_triggering_def)
      next
        case mi: False
        show ?thesis
        proof (cases oc)
          case CtorOk
          then show ?thesis
            using mi None True
            by (auto simp: init_effect_def fetchAQIData_def self_triggering_def)
        next
          case MapThrows
          then show ?thesis
            using mi None True
            by (auto simp: init_effect_def toast_add_def self_triggering_def)
        next
          case ZoomControlThrows
          with oc show ?thesis by simp
        qed
      qed
      then show ?thesis
        using True by (simp add: commit_def r aq)
    qed
  qed
qed

lemma step_self_triggering:
  assumes "self_triggering s" and "fault_free e"
  shows "self_triggering (step col js e s)"
proof (cases e)
  case (Commit oc)
  with assms show ?thesis by (simp add: commit_self_triggering)
next
  case Unmount
  with assms(1) show ?thesis
    by (auto simp: self_triggering_def unmount_def init_cleanup_def split: option.splits)
next
  case (Select loc)
  have "self_triggering (handleSelectLocation js loc s) = self_triggering s"
    by (rule self_triggering_cong)
      (simp_all add: handleSelectLocation_def Let_def fetchAQIDataForLocation_def
        split: option.splits)
  with assms(1) Select show ?thesis by simp
next
  case (SetToken v)
  have "self_triggering (setIqairToken v s) = self_triggering s"
    by (rule self_triggering_cong) (simp_all add: setIqairToken_def)
  with assms(1) SetToken show ?thesis by simp
next
  case SaveToken
  have "self_triggering (handleSaveToken s) = self_triggering s"
    by (rule self_triggering_cong) (simp_all add: handleSaveToken_def toast_add_def)
  with assms(1) SaveToken show ?thesis by simp
next
  case (Search q)
  have "self_triggering (handleSearch q s) = self_triggering s"
    by (rule self_triggering_cong) (simp_all add: handleSearch_def toast_add_def)
  with assms(1) Search show ?thesis by simp
next
  case (SearchDone r)
  have "self_triggering (handleSearch_resume r s) = self_triggering s"
    by (rule self_triggering_cong)
      (simp_all add: handleSearch_resume_def toast_add_def split: outcome.splits json.splits)
  with assms(1) SearchDone show ?thesis by simp
next
  case (LocationFetchDone r)
  have "self_triggering (fetchAQIDataForLocation_resume r s) = self_triggering s"
    by (rule self_triggering_cong)
      (simp_all add: fetchAQIDataForLocation_resume_def setAqiData_def toast_add_def
        split: outcome.splits option.splits)
  with assms(1) LocationFetchDone show ?thesis by simp
next
  case (InitialFetchDone r)
  have "self_triggering (fetchAQIData_resume r s) = self_triggering s"
    by (rule self_triggering_cong)
      (simp_all add: fetchAQIData_resume_def setAqiData_def toast_add_def
        split: outcome.splits option.splits)
  with assms(1) InitialFetchDone show ?thesis by simp
qed

lemma run_self_triggering:
  "self_triggering s \<Longrightarrow> list_all fault_free es \<Longrightarrow> self_triggering (run col js es s)"
  by (induction es arbitrary: s) (simp_all add: step_self_triggering)

lemma no_map_survives_a_commit:
  assumes "list_all fault_free es" and "s = run col js es (init_state stored)"
    and "map_current s = Some i"
  shows "map_current (commit col oc s) = None
       \<and> removed (maps (commit col oc s) ! i)
       \<and> layers (maps (commit col oc s) ! i) = []"
proof -
  have t: "self_triggering s"
    using assms(1,2) by (simp add: run_self_triggering self_triggering_init)
  have "lifecycle_ok s"
    using assms(2) by (simp add: run_ok lifecycle_ok_init)
  then have i: "i < length (maps s)"
    using assms(3) by (simp add: lifecycle_ok_def)
  show ?thesis
    using commit_destroys [OF t assms(3)] i by simp
qed

subsection \<open>C2: one live map, initialised once\<close>

text \<open>
  C2: while a map exists and the gate is open, triggering the initialisation again is a
  no-op and does not create the map again. The code, with no input after the gate was
  opened: the first commit creates the map; the second, triggered by the flag that the
  first one set, removes it and leaves the ref null; the third creates a second map object
  and issues the initial request a second time; the fourth removes that map too. Gate and
  token are the same throughout.
\<close>

theorem init_retriggers_itself:
  "showMap initialized \<and> map_current initialized = Some 0 \<and>
   \<not> removed (maps initialized ! 0) \<and>
   map_gone = commit sample_getAQIColor CtorOk initialized \<and>
   showMap map_gone \<and> iqairToken map_gone = iqairToken initialized \<and>
   map_current map_gone = None \<and> removed (maps map_gone ! 0) \<and>
   map_current (commit sample_getAQIColor CtorOk map_gone) = Some 1 \<and>
   length (maps (commit sample_getAQIColor CtorOk map_gone)) = 2 \<and>
   requests (commit sample_getAQIColor CtorOk map_gone) =
     [DefaultBoundsReq ''24.396308,-125.000000,49.384358,-66.934570'' ''key'',
      DefaultBoundsReq ''24.396308,-125.000000,49.384358,-66.934570'' ''key''] \<and>
   map_current (commit sample_getAQIColor CtorOk (commit sample_getAQIColor CtorOk map_gone))
     = None"
proof -
  have "map_gone = commit sample_getAQIColor CtorOk initialized"
    by (simp add: map_gone_def initialized_def)
  then show ?thesis
    by (simp add: map_gone_eq initialized_eq eval_defs)
qed

subsection \<open>C1: the overlay set after a Dataset replacement\<close>

lemma initial_data:
  "fetchAQIData_resume (Resolved (JObj [(''data'', JArr [louvre])])) initialized
     = initialized\<lparr>aqiData := JArr [louvre], aqiChanged := True\<rparr>"
  by (simp add: initial_fetch_payload payload_def)

lemma data_arrived_eq:
  "data_arrived = map_gone\<lparr>aqiData := JArr [louvre]\<rparr>"
proof -
  have "data_arrived =
      commit sample_getAQIColor CtorOk
        (fetchAQIData_resume (Resolved (JObj [(''data'', JArr [louvre])])) initialized)"
    by (simp add: data_arrived_def initialized_def)
  then show ?thesis
    unfolding initial_data
    by (simp add: map_gone_eq initialized_eq eval_defs)
qed

lemma late_data:
  "fetchAQIData_resume (Resolved (JObj [(''data'', JArr [louvre])])) map_gone
     = map_gone\<lparr>aqiData := JArr [louvre], aqiChanged := True\<rparr>"
  by (simp add: initial_fetch_payload payload_def)

lemma data_arrived_late_eq:
  "data_arrived_late =
     map_gone
       \<lparr>maps := maps map_gone @
          [\<lparr>center = (Num 39.8283, Num (- 98.5795)), zoom = 4,
            layers = [TileLayer, CircleMarker 48.86 2.34 ''green'' 42 (JStr ''Louvre'')],
            zoomControl = True, removed = False\<rparr>],
        map_current := Some 1, aqiData := JArr [louvre], mapInitialized := True,
        requests := requests map_gone @
          [DefaultBoundsReq ''24.396308,-125.000000,49.384358,-66.934570'' ''key''],
        initDeps := Some (True, ''key'', False), initCleanup := True\<rparr>"
proof -
  have "data_arrived_late =
      commit sample_getAQIColor CtorOk
        (fetchAQIData_resume (Resolved (JObj [(''data'', JArr [louvre])])) map_gone)"
    by (simp add: data_arrived_late_def map_gone_def)
  then show ?thesis
    unfolding late_data
    by (simp add: map_gone_eq initialized_eq eval_defs louvre_def sample_getAQIColor_def
        point_marker_def station_name_def clear_circles_def)
qed

text \<open>
  C1: after a Dataset replacement and the reconciliation that follows it, the overlay set
  has one reading-marker per valid Reading of the Dataset. The code, when the initial fetch
  brings one valid reading while the map is live: the commit that follows the replacement
  removes the map before it reconciles, so the Dataset holds the reading and there is no
  marker for it; the next commit creates a new map, with the base layer only, and does not
  reconcile, since the Dataset did not change. When the same response arrives while no
  map is live, the commit creates a map and reconciles onto it, and the commit after that,
  which no input triggers, removes the map with its marker: the Dataset still holds the
  reading and nothing shows it.
\<close>

theorem markers_lost_on_commit:
  "valid_reading louvre \<and>
   spec_markers sample_getAQIColor [louvre] =
     [CircleMarker 48.86 2.34 ''green'' 42 (JStr ''Louvre'')] \<and>
   aqiData data_arrived = JArr [louvre] \<and>
   map_current data_arrived = None \<and>
   removed (maps data_arrived ! 0) \<and> layers (maps data_arrived ! 0) = [] \<and>
   reading_markers data_arrived = [] \<and>
   aqiData (commit sample_getAQIColor CtorOk data_arrived) = JArr [louvre] \<and>
   map_current (commit sample_getAQIColor CtorOk data_arrived) = Some 1 \<and>
   layers (maps (commit sample_getAQIColor CtorOk data_arrived) ! 1) = [TileLayer] \<and>
   reading_markers (commit sample_getAQIColor CtorOk data_arrived) = [] \<and>
   aqiData data_arrived_late = JArr [louvre] \<and>
   map_current data_arrived_late = Some 1 \<and>
   reading_markers data_arrived_late = spec_markers sample_getAQIColor [louvre] \<and>
   aqiData (commit sample_getAQIColor CtorOk data_arrived_late) = JArr [louvre] \<and>
   map_current (commit sample_getAQIColor CtorOk data_arrived_late) = None \<and>
   removed (maps (commit sample_getAQIColor CtorOk data_arrived_late) ! 1) \<and>
   layers (maps (commit sample_getAQIColor CtorOk data_arrived_late) ! 1) = [] \<and>
   reading_markers (commit sample_getAQIColor CtorOk data_arrived_late) = []"
  by (simp add: data_arrived_eq data_arrived_late_eq map_gone_eq initialized_eq eval_defs
      reading_markers_def valid_reading_def spec_markers_def spec_marker_def spec_label_def
      louvre_def sample_getAQIColor_def)

section \<open>The session gate and the remaining paths\<close>

text \<open>
  The gate: a token that is empty or white space is refused with a notification, any
  other is stored and opens the gate. A handler sees the token of its render: what was
  typed shows in the handlers after the next commit.
\<close>

lemma gate_stays_closed:
  "trim (renderedToken s) = [] \<Longrightarrow>
   handleSaveToken s = s\<lparr>toasts := toasts s @ [ToastError ''Please enter a valid IQAir API token'']\<rparr>"
  by (simp add: handleSaveToken_def toast_add_def)

lemma gate_opens:
  "trim (renderedToken s) \<noteq> [] \<Longrightarrow>
   handleSaveToken s = s\<lparr>localStorage := Some (renderedToken s), showMap := True\<rparr>"
  by (simp add: handleSaveToken_def)

lemma gate_examples:
  "showMap (handleSaveToken (init_state (Some '' ''))) = False \<and>
   toasts (handleSaveToken (init_state None)) =
     [ToastError ''Please enter a valid IQAir API token''] \<and>
   showMap (handleSaveToken (init_state (Some '' key ''))) = True \<and>
   localStorage (handleSaveToken (init_state (Some '' key ''))) = Some '' key ''"
  by (simp add: handleSaveToken_def toast_add_def trim_def is_space_def init_state_def)

lemma token_typed:
  "iqairToken (setIqairToken v s) = v \<and> renderedToken (setIqairToken v s) = renderedToken s"
  by (simp add: setIqairToken_def)

lemma init_effect_token:
  "renderedToken (fst (init_effect oc sm tok mi s)) = renderedToken s"
  by (cases oc) (simp_all add: init_effect_def toast_add_def fetchAQIData_def)

lemma init_cleanup_token: "renderedToken (init_cleanup s) = renderedToken s"
  by (simp add: init_cleanup_def split: option.splits)

lemma run_init_token: "renderedToken (run_init oc s) = renderedToken s"
  by (simp add: run_init_def Let_def init_effect_token init_cleanup_token)

lemma run_aqi_token: "renderedToken (run_aqi col s) = renderedToken s"
  by (simp add: run_aqi_def aqi_effect_def split: option.splits json.splits)

lemma commit_renders_token:
  "mounted s \<Longrightarrow> renderedToken (commit col oc s) = iqairToken s"
  by (simp add: commit_def run_aqi_token run_init_token)

text \<open>
  A search response that is not a list: a string is cut to five code units; on any other
  body the error is notified and the candidate list stays.
\<close>

lemma search_response_other:
  "handleSearch_resume (Resolved (JStr t)) s = s\<lparr>searchResults := JStr (take 5 t)\<rparr>"
  "handleSearch_resume (Resolved JNull) s =
     s\<lparr>toasts := toasts s @ [ToastError ''Error searching for locations'']\<rparr>"
  "handleSearch_resume (Resolved (JBool b)) s =
     s\<lparr>toasts := toasts s @ [ToastError ''Error searching for locations'']\<rparr>"
  "handleSearch_resume (Resolved (JNum x)) s =
     s\<lparr>toasts := toasts s @ [ToastError ''Error searching for locations'']\<rparr>"
  "handleSearch_resume (Resolved (JObj kvs)) s =
     s\<lparr>toasts := toasts s @ [ToastError ''Error searching for locations'']\<rparr>"
  by (simp_all add: handleSearch_resume_def toast_add_def)

text \<open>
  The surrogate ranges and lone surrogates, at their bounds.
\<close>

lemma surrogate_ranges:
  "is_lead 0xD800 \<and> is_lead 0xDBFF \<and> \<not> is_lead 0xD7FF \<and> \<not> is_lead 0xDC00 \<and>
   is_trail 0xDC00 \<and> is_trail 0xDFFF \<and> \<not> is_trail 0xDBFF \<and> \<not> is_trail 0xE000 \<and>
   uri_encodable [0xD7FF, 0xE000] \<and> uri_encodable [0xDBFF, 0xDFFF] \<and>
   \<not> uri_encodable [0xDBFF, 0xE000] \<and> \<not> uri_encodable [0xD800, 0xD800, 0xDC00] \<and>
   \<not> uri_encodable [0xDC00] \<and> uri_encodable [0xD800, 0xDC00, 0x20]"
  by (simp add: is_lead_def is_trail_def)

text \<open>
  The body of the init effect: its guard, and the three ways the construction can go.
\<close>

lemma init_guard_and_faults:
  "init_effect oc sm tok mi (s\<lparr>mapContainer := False\<rparr>) = (s\<lparr>mapContainer := False\<rparr>, False)"
  "init_effect oc False tok mi s = (s, False)"
  "mapContainer s \<Longrightarrow>
   init_effect MapThrows True tok False s =
     (s\<lparr>toasts := toasts s @ [ToastError ''Failed to initialize map'']\<rparr>, True)"
  "mapContainer s \<Longrightarrow>
   init_effect ZoomControlThrows True tok False s =
     (s\<lparr>maps := maps s @ [new_map], map_current := Some (length (maps s)),
        toasts := toasts s @ [ToastError ''Failed to initialize map'']\<rparr>, True)"
  "mapContainer s \<Longrightarrow>
   init_effect CtorOk True tok False s =
     (s\<lparr>maps := maps s @ [new_map\<lparr>zoomControl := True\<rparr>],
        map_current := Some (length (maps s)), mapInitialized := True,
        requests := requests s @
          [DefaultBoundsReq ''24.396308,-125.000000,49.384358,-66.934570'' tok]\<rparr>, True)"
  by (simp_all add: init_effect_def toast_add_def fetchAQIData_def)

text \<open>
  Selecting a candidate with a coordinate that does not parse, over a live map: only the
  selected coordinate is recorded.
\<close>

lemma select_unparsable:
  assumes "map_current s = Some i"
    and "parseFloat js (lat loc) = NaN \<or> parseFloat js (lon loc) = NaN"
  shows "handleSelectLocation js loc s =
     s\<lparr>selectedLocation := Some (parseFloat js (lat loc), parseFloat js (lon loc))\<rparr>"
  using assms by (auto simp: handleSelectLocation_def Let_def)

end
